theory Spec2Isabelle
  imports Main "HOL-Library.Sublist"
begin

section \<open>scripts/download\_artifacts.py: artifact download and log comparison\<close>

text \<open>
  The script walks a fixed matrix of artifact name templates, asks the artifact store
  of the CI repository whether the build and report artifacts of the current GCC hash
  exist, downloads the report log, looks for a baseline among the previous hashes and hands
  both logs to the log comparator. Strings are \<open>string\<close> (character lists), Python
  exceptions are values of the type \<open>error\<close>, and every function that can raise returns
  a sum (\<open>Inl\<close> the exception raised).
\<close>

subsection \<open>Exceptions\<close>

text \<open>
  The exception classes that the script, its libraries and its collaborators raise. Each
  carries its message, which is what \<^verbatim>\<open>str(err)\<close> and an f-string \<^verbatim>\<open>{err}\<close> render.
  An \<^verbatim>\<open>except\<close> clause that names a class catches the instances of its subclasses too:
  \<open>RuntimeError\<close> and \<open>ValueError\<close> stand for an instance of the class or of one of its
  subclasses, and the other constructors for classes that derive from neither.
\<close>

datatype error =
    RuntimeError string
  | ValueError string
  | IndexError string
  | KeyError string
  | ConnectionError string
  | BadZipFile string
  | FileNotFoundError string
  | GithubException string

subsection \<open>Python string operations used by the script\<close>

text \<open>\<^verbatim>\<open>sep.join(xs)\<close>.\<close>

fun join :: "string \<Rightarrow> string list \<Rightarrow> string" where
  "join sep [] = []"
| "join sep [x] = x"
| "join sep (x # y # ys) = x @ sep @ join sep (y # ys)"

text \<open>\<^verbatim>\<open>p in s\<close> on strings: \<open>p\<close> occurs in \<open>s\<close> as a contiguous substring.\<close>

fun str_in :: "string \<Rightarrow> string \<Rightarrow> bool" where
  "str_in p [] = (p = [])"
| "str_in p (c # cs) = (prefix p (c # cs) \<or> str_in p cs)"

text \<open>
  \<^verbatim>\<open>s.format(*args)\<close> for format strings with automatically numbered fields. The format
  string is read left to right: \<^verbatim>\<open>{}\<close> takes the next positional argument and raises
  IndexError when none is left; \<^verbatim>\<open>{{\<close> and \<^verbatim>\<open>}}\<close> are escaped braces; a brace on its own
  raises ValueError. Surplus arguments are ignored, and an argument is inserted as it
  is (it is not read as a format string again). Named or indexed fields and conversions
  (\<^verbatim>\<open>{0}\<close>, \<^verbatim>\<open>{x}\<close>, \<^verbatim>\<open>{:>4}\<close>) occur in no format string of the script; the model
  answers them with KeyError.
\<close>

fun format :: "string \<Rightarrow> string list \<Rightarrow> error + string" where
  "format [] args = Inr []"
| "format [c] args =
     (if c = CHR ''{'' then Inl (ValueError ''Single '{' encountered in format string'')
      else if c = CHR ''}'' then Inl (ValueError ''Single '}' encountered in format string'')
      else Inr [c])"
| "format (c # d # cs) args =
     (if c = CHR ''{'' then
        (if d = CHR ''}'' then
           (case args of
              [] \<Rightarrow> Inl (IndexError ''Replacement index out of range for positional args tuple'')
            | a # as \<Rightarrow> (case format cs as of Inl e \<Rightarrow> Inl e | Inr r \<Rightarrow> Inr (a @ r)))
         else if d = CHR ''{'' then
           (case format cs args of Inl e \<Rightarrow> Inl e | Inr r \<Rightarrow> Inr (CHR ''{'' # r))
         else Inl (KeyError ''field name''))
      else if c = CHR ''}'' then
        (if d = CHR ''}'' then
           (case format cs args of Inl e \<Rightarrow> Inl e | Inr r \<Rightarrow> Inr (CHR ''}'' # r))
         else Inl (ValueError ''Single '}' encountered in format string''))
      else (case format (d # cs) args of Inl e \<Rightarrow> Inl e | Inr r \<Rightarrow> Inr (c # r)))"

text \<open>
  A list comprehension whose element expression can raise: the elements are evaluated
  in order and the first exception ends the comprehension.
\<close>

fun collect :: "(error + 'a) list \<Rightarrow> error + 'a list" where
  "collect [] = Inr []"
| "collect (Inl e # rs) = Inl e"
| "collect (Inr x # rs) = (case collect rs of Inl e \<Rightarrow> Inl e | Inr xs \<Rightarrow> Inr (x # xs))"

subsection \<open>get\_possible\_artifact\_names\<close>

definition libc :: "string list" where
  "libc = [''gcc-linux'', ''gcc-newlib'']"

definition arch :: "string list" where
  "arch = [''rv32{}-ilp32d-{}'', ''rv64{}-lp64d-{}'']"

definition multilib :: "string list" where
  "multilib = [''multilib'', ''non-multilib'']"

definition arch_extensions :: "string list" where
  "arch_extensions = [''gc'']"

definition all_lists :: "string list" where
  "all_lists =
     concat (map (\<lambda>i. concat (map (\<lambda>j. concat (map (\<lambda>k.
       if \<not> (str_in ''rv32'' j \<and> k = ''multilib'') then [join ''-'' [i, j, k]] else [])
     multilib)) arch)) libc)"

definition get_possible_artifact_names :: "error + string list" where
  "get_possible_artifact_names =
     collect (concat (map (\<lambda>name. map (\<lambda>ext. format name [ext, ''{}'']) arch_extensions)
       all_lists))"

subsection \<open>More string operations: replace, split, str\<close>

text \<open>
  \<^verbatim>\<open>s.replace(old, new)\<close>: every occurrence of \<open>old\<close>, found left to right without
  overlap, is replaced. For the empty pattern Python puts \<open>new\<close> before every character
  and at the end.
\<close>

function replace :: "string \<Rightarrow> string \<Rightarrow> string \<Rightarrow> string" where
  "replace old new s =
     (if old = [] then new @ concat (map (\<lambda>c. c # new) s)
      else if s = [] then []
      else if prefix old s then new @ replace old new (drop (length old) s)
      else hd s # replace old new (tl s))"
  by pat_completeness auto
termination
  by (relation "measure (\<lambda>(old, new, s). length s)") auto

declare replace.simps [simp del]

text \<open>\<^verbatim>\<open>s.split(sep)[0]\<close> for a non-empty \<open>sep\<close>: the text before the first occurrence of
  \<open>sep\<close>, all of \<open>s\<close> when there is none.\<close>

fun split_head :: "string \<Rightarrow> string \<Rightarrow> string" where
  "split_head sep [] = []"
| "split_head sep (c # cs) = (if prefix sep (c # cs) then [] else c # split_head sep cs)"

text \<open>\<^verbatim>\<open>str(n)\<close> for an integer: its decimal digits, with a minus sign when negative.\<close>

fun str_nat :: "nat \<Rightarrow> string" where
  "str_nat n =
     (if n < 10 then [''0123456789'' ! n]
      else str_nat (n div 10) @ [''0123456789'' ! (n mod 10)])"

declare str_nat.simps [simp del]

definition str_int :: "int \<Rightarrow> string" where
  "str_int i = (if i < 0 then CHR ''-'' # str_nat (nat (- i)) else str_nat (nat i))"

subsection \<open>The world the script runs in\<close>

text \<open>
  An artifact record of the store. Only its \<^verbatim>\<open>id\<close> is read; the identifiers of the
  store are database keys, never negative.
\<close>

datatype artifact = Artifact (ident: nat)

text \<open>
  The repository handle: \<open>repo name\<close> is \<^verbatim>\<open>repo.get_artifacts(name).get_page(0)\<close>,
  the first page of the artifacts with that name, or the exception of the store.
\<close>

type_synonym repo = "string \<Rightarrow> error + artifact list"

record response =
  status_code :: int
  content :: string

text \<open>
  The state the script changes: what it printed, the files it downloaded and extracted
  (a path mapped to its bytes), the three failure logs (each the list of the strings
  appended by one \<^verbatim>\<open>f.write\<close> each, oldest first; the logs are opened with \<^verbatim>\<open>a+\<close>,
  so earlier content stays), the summaries written by the comparator (path and text,
  oldest first) and the calls of the baseline resolver and the comparator in the order
  they were made. The directories \<^verbatim>\<open>./logs\<close> and \<^verbatim>\<open>./summaries\<close> exist.
\<close>

datatype event =
    Resolved string int
  | Compared string string string string string

record state =
  stdout :: "string list"
  files :: "string \<rightharpoonup> string"
  failed_build :: "string list"
  failed_testsuite :: "string list"
  no_baseline :: "string list"
  summaries :: "(string \<times> string) list"
  trace :: "event list"

text \<open>
  The collaborators, which the script imports: the GitHub client, the HTTP client, the
  zip library and the two modules \<^verbatim>\<open>get_most_recent_ci_hash\<close> and
  \<^verbatim>\<open>compare_testsuite_log\<close>. They are parameters of the model: each is a function of
  its arguments that returns a value or the exception it raises, the same answer for
  the same request throughout a run.
  \<^item> \<open>get_repo token full_name\<close>: \<^verbatim>\<open>Github(auth=Auth.Token(token)).get_repo(full_name)\<close>.
  \<^item> \<open>gcc_hashes hash flag\<close>: the hashes before \<open>hash\<close>.
  \<^item> \<open>requests_get url headers\<close>: \<^verbatim>\<open>requests.get\<close>, which raises on a network failure
    and returns the response, whatever its status, otherwise.
  \<^item> \<open>ZipFile bytes\<close>: the members (name and data) of an archive, BadZipFile when the
    bytes are no archive.
  \<^item> \<open>get_valid_artifact_hash hashes token name\<close>: a hash and an artifact id, the hash
    \<^verbatim>\<open>No valid hash\<close> when no previous hash has the artifact.
  \<^item> \<open>compare_logs\<close>: see \<open>try_compare_logs\<close> below.
\<close>

record env =
  get_repo :: "string \<Rightarrow> string \<Rightarrow> error + repo"
  gcc_hashes :: "string \<Rightarrow> bool \<Rightarrow> error + string list"
  requests_get :: "string \<Rightarrow> (string \<times> string) list \<Rightarrow> error + response"
  ZipFile :: "string \<Rightarrow> error + (string \<times> string) list"
  get_valid_artifact_hash :: "string list \<Rightarrow> string \<Rightarrow> string \<Rightarrow> error + string \<times> int"
  compare_logs ::
    "string \<Rightarrow> string \<Rightarrow> string \<Rightarrow> string \<Rightarrow> string \<Rightarrow> (string \<rightharpoonup> string) \<Rightarrow> error + string"

subsection \<open>check\_artifact\_exists\<close>

definition check_artifact_exists :: "string \<Rightarrow> repo \<Rightarrow> state \<Rightarrow> (error + int) \<times> state" where
  "check_artifact_exists artifact_name repo s =
     (let build_name = artifact_name in
      case repo artifact_name of
        Inl e \<Rightarrow> (Inl e, s)
      | Inr artifact \<Rightarrow>
          let build_failed = (length artifact = 0);
              s1 = (if length artifact = 0
                    then s\<lparr>stdout := stdout s @ [''build failed for '' @ build_name],
                           failed_build := failed_build s @ [build_name @ ''|Check logs\<newline>'']\<rparr>
                    else s);
              artifact_name' = artifact_name @ ''-report.log''
          in (case repo artifact_name' of
                Inl e \<Rightarrow> (Inl e, s1)
              | Inr artifact' \<Rightarrow>
                  if length artifact' = 0 then
                    let s2 = s1\<lparr>stdout := stdout s1 @ [''testsuite failed for '' @ build_name]\<rparr>;
                        s3 = (if \<not> build_failed
                              then s2\<lparr>failed_testsuite := failed_testsuite s2 @
                                        [build_name @ ''|Cannot find testsuite artifact\<newline>'']\<rparr>
                              else s2)
                    in (Inr (- 1), s3)
                  else (Inr (int (ident (artifact' ! 0))), s1)))"

subsection \<open>download\_artifact\<close>

text \<open>\<^verbatim>\<open>zf.extractall(path=dir)\<close>: every member is written below \<open>dir\<close>.\<close>

fun extractall :: "string \<Rightarrow> (string \<times> string) list \<Rightarrow> (string \<rightharpoonup> string) \<Rightarrow> (string \<rightharpoonup> string)" where
  "extractall dir [] fs = fs"
| "extractall dir ((n, d) # ms) fs = extractall dir ms (fs(dir @ ''/'' @ n \<mapsto> d))"

text \<open>The headers (\<^verbatim>\<open>params\<close>) and the address of the request of lines 89--100.\<close>

definition params :: "string \<Rightarrow> (string \<times> string) list" where
  "params token =
     [(''Accept'', ''application/vnd.github+json''),
      (''Authorization'', ''token '' @ token),
      (''X-Github-Api-Version'', ''2022-11-28'')]"

definition artifact_url :: "string \<Rightarrow> string" where
  "artifact_url artifact_id =
     ''https://api.github.com/repos/patrick-rivos/riscv-gnu-toolchain/actions/artifacts/''
       @ artifact_id @ ''/zip''"

text \<open>
  The status of the response is printed and not looked at again. The archive is opened
  from the file just written, so from the body of the response. \<^verbatim>\<open>os.rename\<close> raises
  FileNotFoundError when the extracted directory has no file named as the artifact, and
  moves the file to \<^verbatim>\<open>./logs\<close> otherwise.
\<close>

definition download_artifact ::
    "env \<Rightarrow> string \<Rightarrow> string \<Rightarrow> string \<Rightarrow> state \<Rightarrow> (error + unit) \<times> state" where
  "download_artifact env artifact_name artifact_id token s =
     (let artifact_zip_name = replace ''.log'' ''.zip'' artifact_name;
          s1 = s\<lparr>stdout := stdout s @ [artifact_zip_name, ''downloading: '' @ artifact_id]\<rparr>
      in case requests_get env (artifact_url artifact_id) (params token) of
           Inl e \<Rightarrow> (Inl e, s1)
         | Inr r \<Rightarrow>
             let s2 = s1\<lparr>stdout := stdout s1 @ [str_int (status_code r)],
                         files := (files s1)(''./'' @ artifact_zip_name \<mapsto> content r)\<rparr>
             in (case ZipFile env (content r) of
                   Inl e \<Rightarrow> (Inl e, s2)
                 | Inr members \<Rightarrow>
                     let dir = ''./'' @ split_head ''.log'' artifact_name;
                         s3 = s2\<lparr>files := extractall dir members (files s2)\<rparr>;
                         src = dir @ ''/'' @ artifact_name;
                         dst = ''./logs/'' @ artifact_name
                     in (case files s3 src of
                           None \<Rightarrow> (Inl (FileNotFoundError src), s3)
                         | Some data \<Rightarrow>
                             (Inr (), s3\<lparr>files := ((files s3)(src := None))(dst \<mapsto> data)\<rparr>))))"

subsection \<open>download\_and\_compare\_all\_artifacts\<close>

text \<open>
  Modelled from the spec: the effect of \<^verbatim>\<open>compare_logs\<close> (scripts/compare\_testsuite\_log.py,
  a module of its own, is the comparator). It reads the two logs and, when it succeeds,
  writes its summary to the summary path; it fails with a value or runtime error on logs
  it cannot compare. The collaborator \<open>compare_logs env\<close> gives the summary text or the
  exception raised.

  The two \<^verbatim>\<open>try\<close> blocks around the call (lines 144--154 and 158--168) are the same
  but for the arguments. RuntimeError and ValueError are caught and recorded in
  \<^verbatim>\<open>failed_testsuite.txt\<close>; any other exception leaves the block.
\<close>

definition try_compare_logs ::
    "env \<Rightarrow> string \<Rightarrow> string \<Rightarrow> string \<Rightarrow> string \<Rightarrow> string \<Rightarrow> string \<Rightarrow> state
       \<Rightarrow> (error + unit) \<times> state" where
  "try_compare_logs env base_hash base_log current_hash current_log compare_path artifact s =
     (let s1 = s\<lparr>trace := trace s @ [Compared base_hash base_log current_hash current_log compare_path]\<rparr>
      in case compare_logs env base_hash base_log current_hash current_log compare_path (files s) of
           Inr summary \<Rightarrow> (Inr (), s1\<lparr>summaries := summaries s1 @ [(compare_path, summary)]\<rparr>)
         | Inl (RuntimeError err) \<Rightarrow>
             (Inr (), s1\<lparr>failed_testsuite := failed_testsuite s1 @ [artifact @ ''|'' @ err @ ''\<newline>'']\<rparr>)
         | Inl (ValueError err) \<Rightarrow>
             (Inr (), s1\<lparr>failed_testsuite := failed_testsuite s1 @ [artifact @ ''|'' @ err @ ''\<newline>'']\<rparr>)
         | Inl e \<Rightarrow> (Inl e, s1))"

text \<open>
  Lines 130--168, the part of the loop body after the \<^verbatim>\<open>continue\<close> of line 129:
  \<open>artifact_name\<close> is the template, \<open>artifact\<close> the template with the current hash filled
  in, \<open>artifact_id\<close> the id of the report artifact.
\<close>

definition download_and_compare ::
    "env \<Rightarrow> string \<Rightarrow> string \<Rightarrow> string list \<Rightarrow> string \<Rightarrow> string \<Rightarrow> int \<Rightarrow> state
       \<Rightarrow> (error + unit) \<times> state" where
  "download_and_compare env current_hash token prev_commits artifact_name0 artifact0 artifact_id s =
     (let compare_path = ''./summaries/'' @ (artifact0 @ ''-report-summary.md'');
          artifact = artifact0 @ ''-report.log'';
          artifact_name = artifact_name0 @ ''-report.log''
      in case download_artifact env artifact (str_int artifact_id) token s of
           (Inl e, s1) \<Rightarrow> (Inl e, s1)
         | (Inr u, s1) \<Rightarrow>
             (case get_valid_artifact_hash env prev_commits token artifact_name of
                Inl e \<Rightarrow> (Inl e, s1)
              | Inr (base_hash, base_id) \<Rightarrow>
                  let s2 = s1\<lparr>trace := trace s1 @ [Resolved base_hash base_id]\<rparr> in
                  if base_hash = ''No valid hash'' then
                    let s3 = s2\<lparr>stdout := stdout s2 @ [''no baseline for '' @ artifact],
                                no_baseline := no_baseline s2 @ [artifact @ ''\<newline>'']\<rparr>;
                        base_hash' = current_hash @ ''-no-baseline''
                    in try_compare_logs env base_hash' (''./logs/'' @ artifact)
                         base_hash' (''./logs/'' @ artifact) compare_path artifact s3
                  else
                    (case format artifact_name [base_hash] of
                       Inl e \<Rightarrow> (Inl e, s2)
                     | Inr base_artifact \<Rightarrow>
                         (case download_artifact env base_artifact (str_int base_id) token s2 of
                            (Inl e, s3) \<Rightarrow> (Inl e, s3)
                          | (Inr u, s3) \<Rightarrow>
                              try_compare_logs env base_hash (''./logs/'' @ base_artifact)
                                current_hash (''./logs/'' @ artifact) compare_path artifact s3))))"

text \<open>The loop body, lines 126--168, for one template.\<close>

definition loop_body ::
    "env \<Rightarrow> repo \<Rightarrow> string \<Rightarrow> string \<Rightarrow> string list \<Rightarrow> string \<Rightarrow> state \<Rightarrow> (error + unit) \<times> state" where
  "loop_body env repo current_hash token prev_commits artifact_name s =
     (case format artifact_name [current_hash] of
        Inl e \<Rightarrow> (Inl e, s)
      | Inr artifact \<Rightarrow>
          (case check_artifact_exists artifact repo s of
             (Inl e, s1) \<Rightarrow> (Inl e, s1)
           | (Inr artifact_id, s1) \<Rightarrow>
               if artifact_id = - 1 then (Inr (), s1)
               else download_and_compare env current_hash token prev_commits
                      artifact_name artifact artifact_id s1))"

text \<open>The \<^verbatim>\<open>for\<close> loop of line 125: an exception that leaves the body ends the loop.\<close>

fun for_artifact_names ::
    "env \<Rightarrow> repo \<Rightarrow> string \<Rightarrow> string \<Rightarrow> string list \<Rightarrow> string list \<Rightarrow> state \<Rightarrow> (error + unit) \<times> state" where
  "for_artifact_names env repo current_hash token prev_commits [] s = (Inr (), s)"
| "for_artifact_names env repo current_hash token prev_commits (artifact_name # rest) s =
     (case loop_body env repo current_hash token prev_commits artifact_name s of
        (Inl e, s1) \<Rightarrow> (Inl e, s1)
      | (Inr u, s1) \<Rightarrow> for_artifact_names env repo current_hash token prev_commits rest s1)"

definition download_and_compare_all_artifacts ::
    "env \<Rightarrow> string \<Rightarrow> string \<Rightarrow> state \<Rightarrow> (error + unit) \<times> state" where
  "download_and_compare_all_artifacts env current_hash token s =
     (case get_repo env token ''patrick-rivos/riscv-gnu-toolchain'' of
        Inl e \<Rightarrow> (Inl e, s)
      | Inr repo \<Rightarrow>
          (case gcc_hashes env current_hash False of
             Inl e \<Rightarrow> (Inl e, s)
           | Inr prev_commits \<Rightarrow>
               (case get_possible_artifact_names of
                  Inl e \<Rightarrow> (Inl e, s)
                | Inr artifact_names \<Rightarrow>
                    for_artifact_names env repo current_hash token prev_commits artifact_names s)))"

subsection \<open>The specification's notions\<close>

text \<open>
  The configuration table's cross product as the specification words it: every
  combination of a library, an architecture, a multilib mode and an extension; the
  combinations that pair the 32-bit architecture with multilib mode; and the template a
  combination is rendered to.
\<close>

definition cross_product :: "(string \<times> string \<times> string \<times> string) list" where
  "cross_product =
     [(i, j, k, ext). i \<leftarrow> libc, j \<leftarrow> arch, k \<leftarrow> multilib, ext \<leftarrow> arch_extensions]"

definition rv32_multilib :: "string \<times> string \<times> string \<times> string \<Rightarrow> bool" where
  "rv32_multilib c = (case c of (i, j, k, ext) \<Rightarrow> j = ''rv32{}-ilp32d-{}'' \<and> k = ''multilib'')"

definition render :: "string \<times> string \<times> string \<times> string \<Rightarrow> error + string" where
  "render c = (case c of (i, j, k, ext) \<Rightarrow> format (join ''-'' [i, j, k]) [ext, ''{}''])"

text \<open>
  A template is in multilib mode when its last component is \<^verbatim>\<open>multilib\<close>, which
  \<^verbatim>\<open>non-multilib\<close> also ends with.
\<close>

definition multilib_mode :: "string \<Rightarrow> bool" where
  "multilib_mode t = (suffix ''-multilib'' t \<and> \<not> suffix ''-non-multilib'' t)"

text \<open>The number of placeholders \<^verbatim>\<open>{}\<close> in a string, and the number of its braces.\<close>

fun placeholders :: "string \<Rightarrow> nat" where
  "placeholders [] = 0"
| "placeholders [c] = 0"
| "placeholders (c # d # cs) =
     (if c = CHR ''{'' \<and> d = CHR ''}'' then Suc (placeholders cs) else placeholders (d # cs))"

definition braces :: "string \<Rightarrow> nat" where
  "braces t = length (filter (\<lambda>c. c = CHR ''{'' \<or> c = CHR ''}'') t)"

text \<open>The six templates that \<open>get_possible_artifact_names\<close> returns (lemma \<open>names_eq\<close>).\<close>

definition artifact_names :: "string list" where
  "artifact_names =
     [''gcc-linux-rv32gc-ilp32d-{}-non-multilib'',
      ''gcc-linux-rv64gc-lp64d-{}-multilib'',
      ''gcc-linux-rv64gc-lp64d-{}-non-multilib'',
      ''gcc-newlib-rv32gc-ilp32d-{}-non-multilib'',
      ''gcc-newlib-rv64gc-lp64d-{}-multilib'',
      ''gcc-newlib-rv64gc-lp64d-{}-non-multilib'']"

text \<open>
  A download that succeeds whatever the files on disk: the request returns, its body
  opens as an archive, and the archive holds the log under the artifact's name.
\<close>

definition downloadable :: "env \<Rightarrow> string \<Rightarrow> string \<Rightarrow> string \<Rightarrow> bool" where
  "downloadable env artifact_name artifact_id token =
     (case requests_get env (artifact_url artifact_id) (params token) of
        Inl e \<Rightarrow> False
      | Inr r \<Rightarrow>
          (case ZipFile env (content r) of
             Inl e \<Rightarrow> False
           | Inr members \<Rightarrow> artifact_name \<in> fst ` set members))"

text \<open>
  What one comparison leaves behind, as \<open>try_compare_logs\<close> has it: between the states
  \<open>s\<close> and \<open>s'\<close> either a summary was written, or the caught error was recorded in
  \<^verbatim>\<open>failed_testsuite.txt\<close>, or an error that is not caught was passed on as \<open>res\<close>.
\<close>

definition comparison_outcome ::
    "env \<Rightarrow> string \<Rightarrow> string \<Rightarrow> string \<Rightarrow> string \<Rightarrow> string \<Rightarrow> string \<Rightarrow> state \<Rightarrow> state
       \<Rightarrow> (error + unit) \<Rightarrow> bool" where
  "comparison_outcome env a b c d p art s s' res =
     (case compare_logs env a b c d p (files s') of
        Inr sm \<Rightarrow>
          res = Inr () \<and> summaries s' = summaries s @ [(p, sm)]
          \<and> failed_testsuite s' = failed_testsuite s
      | Inl (RuntimeError err) \<Rightarrow>
          res = Inr () \<and> summaries s' = summaries s
          \<and> failed_testsuite s' = failed_testsuite s @ [art @ ''|'' @ err @ ''\<newline>'']
      | Inl (ValueError err) \<Rightarrow>
          res = Inr () \<and> summaries s' = summaries s
          \<and> failed_testsuite s' = failed_testsuite s @ [art @ ''|'' @ err @ ''\<newline>'']
      | Inl e \<Rightarrow>
          res = Inl e \<and> summaries s' = summaries s \<and> failed_testsuite s' = failed_testsuite s)"

text \<open>
  What a step appended: the strings added to the three failure logs and the summaries
  written between the states \<open>s\<close> and \<open>s'\<close>.
\<close>

definition appended ::
    "state \<Rightarrow> state \<Rightarrow> string list \<Rightarrow> string list \<Rightarrow> string list \<Rightarrow> (string \<times> string) list \<Rightarrow> bool" where
  "appended s s' fb ft nb sm =
     (failed_build s' = failed_build s @ fb \<and> failed_testsuite s' = failed_testsuite s @ ft
      \<and> no_baseline s' = no_baseline s @ nb \<and> summaries s' = summaries s @ sm)"

text \<open>
  The forms of the records the script writes, for an artifact name \<open>a\<close> (a template
  with the current hash filled in): a build-failure record, a testsuite-failure record
  (for a missing report artifact, or for a comparator error, then under the name of the
  report log and with the error text as reason) and a record of \<^verbatim>\<open>no_baseline.txt\<close>,
  which is the name of the report log alone.
\<close>

definition build_failure_record :: "string \<Rightarrow> string \<Rightarrow> bool" where
  "build_failure_record a l = (l = a @ ''|Check logs\<newline>'')"

definition testsuite_failure_record :: "string \<Rightarrow> string \<Rightarrow> bool" where
  "testsuite_failure_record a l =
     (l = a @ ''|Cannot find testsuite artifact\<newline>''
      \<or> (\<exists>err. l = a @ ''-report.log|'' @ err @ ''\<newline>''))"

definition no_baseline_record :: "string \<Rightarrow> string \<Rightarrow> bool" where
  "no_baseline_record a l = (l = a @ ''-report.log\<newline>'')"

text \<open>The artifact names of a run: the templates with the hash filled in.\<close>

definition rendered :: "string \<Rightarrow> string set" where
  "rendered h = {a. \<exists>t \<in> set artifact_names. format t [h] = Inr a}"

text \<open>
  Between \<open>s\<close> and \<open>s'\<close> the three failure logs were only appended to, and every
  record appended has the form of its log for an artifact name in \<open>A\<close>.
\<close>

definition appended_records :: "string set \<Rightarrow> state \<Rightarrow> state \<Rightarrow> bool" where
  "appended_records A s s' =
     (\<exists>fb ft nb.
        failed_build s' = failed_build s @ fb
        \<and> failed_testsuite s' = failed_testsuite s @ ft
        \<and> no_baseline s' = no_baseline s @ nb
        \<and> (\<forall>l \<in> set fb. \<exists>a \<in> A. build_failure_record a l)
        \<and> (\<forall>l \<in> set ft. \<exists>a \<in> A. testsuite_failure_record a l)
        \<and> (\<forall>l \<in> set nb. \<exists>a \<in> A. no_baseline_record a l))"

subsection \<open>Example worlds\<close>

text \<open>
  A store given by a table from artifact names to ids, the state before a run, and a
  world in which the store answers requests for the artifacts 42 and 43 with archives of
  the report logs of the hashes \<^verbatim>\<open>abc123\<close> and \<^verbatim>\<open>def456\<close>, a request for artifact 44
  with a body that is no archive, and cannot be reached for any other; the status of
  the responses, the resolver's answer and the comparator's answer are parameters.
\<close>

definition store :: "(string \<times> nat) list \<Rightarrow> repo" where
  "store table name = (case map_of table name of None \<Rightarrow> Inr [] | Some i \<Rightarrow> Inr [Artifact i])"

definition state0 :: state where
  "state0 = \<lparr>stdout = [], files = Map.empty, failed_build = [], failed_testsuite = [],
             no_baseline = [], summaries = [], trace = []\<rparr>"

definition demo_env :: "int \<Rightarrow> (error + string \<times> int) \<Rightarrow> (error + string) \<Rightarrow> env" where
  "demo_env status resolved compared =
     \<lparr>get_repo = (\<lambda>token full_name.
        Inr (store [(''gcc-linux-rv32gc-ilp32d-abc123-non-multilib'', 41),
                    (''gcc-linux-rv32gc-ilp32d-abc123-non-multilib-report.log'', 42)])),
      gcc_hashes = (\<lambda>hash flag. Inr [''def456'']),
      requests_get = (\<lambda>url headers.
        if url = artifact_url ''42'' then Inr \<lparr>status_code = status, content = ''PK current''\<rparr>
        else if url = artifact_url ''43'' then Inr \<lparr>status_code = status, content = ''PK baseline''\<rparr>
        else if url = artifact_url ''44'' then Inr \<lparr>status_code = status, content = ''Not Found''\<rparr>
        else Inl (ConnectionError ''connection refused'')),
      ZipFile = (\<lambda>bytes.
        if bytes = ''PK current''
        then Inr [(''gcc-linux-rv32gc-ilp32d-abc123-non-multilib-report.log'', ''current log'')]
        else if bytes = ''PK baseline''
        then Inr [(''gcc-linux-rv32gc-ilp32d-def456-non-multilib-report.log'', ''baseline log'')]
        else Inl (BadZipFile ''File is not a zip file'')),
      get_valid_artifact_hash = (\<lambda>hashes token name. resolved),
      compare_logs = (\<lambda>base_hash base_log current_hash current_log compare_path fs. compared)\<rparr>"

section \<open>Properties\<close>

subsection \<open>Name generation\<close>

lemma names_eq: "get_possible_artifact_names = Inr artifact_names"
  by (simp add: get_possible_artifact_names_def all_lists_def libc_def arch_def multilib_def
      arch_extensions_def artifact_names_def)

lemma cross_product_eq:
  "cross_product =
     [(''gcc-linux'', ''rv32{}-ilp32d-{}'', ''multilib'', ''gc''),
      (''gcc-linux'', ''rv32{}-ilp32d-{}'', ''non-multilib'', ''gc''),
      (''gcc-linux'', ''rv64{}-lp64d-{}'', ''multilib'', ''gc''),
      (''gcc-linux'', ''rv64{}-lp64d-{}'', ''non-multilib'', ''gc''),
      (''gcc-newlib'', ''rv32{}-ilp32d-{}'', ''multilib'', ''gc''),
      (''gcc-newlib'', ''rv32{}-ilp32d-{}'', ''non-multilib'', ''gc''),
      (''gcc-newlib'', ''rv64{}-lp64d-{}'', ''multilib'', ''gc''),
      (''gcc-newlib'', ''rv64{}-lp64d-{}'', ''non-multilib'', ''gc'')]"
  by (simp add: cross_product_def libc_def arch_def multilib_def arch_extensions_def)

text \<open>
  C7. The templates returned are the renderings of the full cross product of the
  configuration table (8 combinations) without the 2 combinations that pair rv32 with
  multilib mode, in the order of the table; no returned template has rv32 and is in
  multilib mode, and no excluded combination's rendering is returned.
\<close>

theorem names_cross_product_without_rv32_multilib:
  "get_possible_artifact_names = Inr artifact_names
   \<and> map Inr artifact_names = map render (filter (\<lambda>c. \<not> rv32_multilib c) cross_product)
   \<and> length cross_product = 8
   \<and> length (filter rv32_multilib cross_product) = 2
   \<and> length artifact_names = 6
   \<and> list_all (\<lambda>t. \<not> (str_in ''rv32'' t \<and> multilib_mode t)) artifact_names
   \<and> list_all (\<lambda>c. render c \<notin> Inr ` set artifact_names) (filter rv32_multilib cross_product)"
proof (intro conjI)
  show "get_possible_artifact_names = Inr artifact_names"
    by (rule names_eq)
  show "map Inr artifact_names = map render (filter (\<lambda>c. \<not> rv32_multilib c) cross_product)"
    by (simp add: cross_product_eq rv32_multilib_def render_def artifact_names_def)
  show "length cross_product = 8"
    by (simp add: cross_product_eq)
  show "length (filter rv32_multilib cross_product) = 2"
    by (simp add: cross_product_eq rv32_multilib_def)
  show "length artifact_names = 6"
    by (simp add: artifact_names_def)
  show "list_all (\<lambda>t. \<not> (str_in ''rv32'' t \<and> multilib_mode t)) artifact_names"
    by (simp add: artifact_names_def multilib_mode_def suffix_to_prefix)
  show "list_all (\<lambda>c. render c \<notin> Inr ` set artifact_names) (filter rv32_multilib cross_product)"
    by (simp add: cross_product_eq rv32_multilib_def render_def artifact_names_def image_iff)
qed

text \<open>
  C8. Each architecture pattern has two placeholders; each returned template has exactly
  one placeholder and no brace besides it, so that formatting it with one hash succeeds
  and formatting it with none raises IndexError.
\<close>

theorem names_one_placeholder:
  "get_possible_artifact_names = Inr artifact_names
   \<and> list_all (\<lambda>j. placeholders j = 2) arch
   \<and> list_all (\<lambda>t. placeholders t = 1 \<and> braces t = 2) artifact_names
   \<and> list_all (\<lambda>t. \<exists>pre post. \<forall>h. format t [h] = Inr (pre @ h @ post)) artifact_names
   \<and> list_all (\<lambda>t. \<exists>e. format t [] = Inl (IndexError e)) artifact_names"
proof (intro conjI)
  show "get_possible_artifact_names = Inr artifact_names"
    by (rule names_eq)
  show "list_all (\<lambda>j. placeholders j = 2) arch"
    by (simp add: arch_def)
  show "list_all (\<lambda>t. placeholders t = 1 \<and> braces t = 2) artifact_names"
    by (simp add: artifact_names_def braces_def)
  show "list_all (\<lambda>t. \<exists>pre post. \<forall>h. format t [h] = Inr (pre @ h @ post)) artifact_names"
    unfolding artifact_names_def list.pred_inject
  proof (intro conjI TrueI)
    show "\<exists>pre post. \<forall>h. format ''gcc-linux-rv32gc-ilp32d-{}-non-multilib'' [h] = Inr (pre @ h @ post)"
      by (intro exI [of _ "''gcc-linux-rv32gc-ilp32d-''"] exI [of _ "''-non-multilib''"]) simp
    show "\<exists>pre post. \<forall>h. format ''gcc-linux-rv64gc-lp64d-{}-multilib'' [h] = Inr (pre @ h @ post)"
      by (intro exI [of _ "''gcc-linux-rv64gc-lp64d-''"] exI [of _ "''-multilib''"]) simp
    show "\<exists>pre post. \<forall>h. format ''gcc-linux-rv64gc-lp64d-{}-non-multilib'' [h] = Inr (pre @ h @ post)"
      by (intro exI [of _ "''gcc-linux-rv64gc-lp64d-''"] exI [of _ "''-non-multilib''"]) simp
    show "\<exists>pre post. \<forall>h. format ''gcc-newlib-rv32gc-ilp32d-{}-non-multilib'' [h] = Inr (pre @ h @ post)"
      by (intro exI [of _ "''gcc-newlib-rv32gc-ilp32d-''"] exI [of _ "''-non-multilib''"]) simp
    show "\<exists>pre post. \<forall>h. format ''gcc-newlib-rv64gc-lp64d-{}-multilib'' [h] = Inr (pre @ h @ post)"
      by (intro exI [of _ "''gcc-newlib-rv64gc-lp64d-''"] exI [of _ "''-multilib''"]) simp
    show "\<exists>pre post. \<forall>h. format ''gcc-newlib-rv64gc-lp64d-{}-non-multilib'' [h] = Inr (pre @ h @ post)"
      by (intro exI [of _ "''gcc-newlib-rv64gc-lp64d-''"] exI [of _ "''-non-multilib''"]) simp
  qed simp
  show "list_all (\<lambda>t. \<exists>e. format t [] = Inl (IndexError e)) artifact_names"
    by (simp add: artifact_names_def)
qed

subsection \<open>What each step changes\<close>

lemma check_artifact_exists_frame:
  "check_artifact_exists n repo s = (r, s') \<Longrightarrow>
     files s' = files s \<and> no_baseline s' = no_baseline s \<and> summaries s' = summaries s \<and> trace s' = trace s"
  by (auto simp: check_artifact_exists_def Let_def split: sum.splits if_splits)

lemma download_artifact_frame:
  "download_artifact env n i tok s = (r, s') \<Longrightarrow>
     failed_build s' = failed_build s \<and> failed_testsuite s' = failed_testsuite s
     \<and> no_baseline s' = no_baseline s \<and> summaries s' = summaries s \<and> trace s' = trace s"
  by (auto simp: download_artifact_def Let_def split: sum.splits option.splits)

lemma try_compare_logs_frame:
  "try_compare_logs env a b c d p art s = (r, s') \<Longrightarrow>
     files s' = files s \<and> failed_build s' = failed_build s \<and> no_baseline s' = no_baseline s
     \<and> stdout s' = stdout s \<and> trace s' = trace s @ [Compared a b c d p]"
proof (cases "compare_logs env a b c d p (files s)")
  case (Inl e)
  assume "try_compare_logs env a b c d p art s = (r, s')"
  with Inl show ?thesis
    by (cases e) (auto simp: try_compare_logs_def Let_def)
next
  case (Inr sm)
  assume "try_compare_logs env a b c d p art s = (r, s')"
  with Inr show ?thesis
    by (auto simp: try_compare_logs_def Let_def)
qed

lemma try_compare_logs_outcome:
  assumes "try_compare_logs env a b c d p art s = (r, s')"
  shows "comparison_outcome env a b c d p art s s' r"
proof -
  have f: "files s' = files s"
    using try_compare_logs_frame [OF assms] by simp
  show ?thesis
  proof (cases "compare_logs env a b c d p (files s)")
    case (Inl e)
    with assms f show ?thesis
      by (cases e) (auto simp: try_compare_logs_def comparison_outcome_def Let_def)
  next
    case (Inr sm)
    with assms f show ?thesis
      by (auto simp: try_compare_logs_def comparison_outcome_def Let_def)
  qed
qed


lemma comparison_outcome_cong:
  "comparison_outcome env a b c d p art s0 s' r \<Longrightarrow> summaries s0 = summaries s
     \<Longrightarrow> failed_testsuite s0 = failed_testsuite s \<Longrightarrow> comparison_outcome env a b c d p art s s' r"
  by (simp add: comparison_outcome_def split: sum.splits error.splits)

lemma format_plain:
  "CHR ''{'' \<notin> set suf \<Longrightarrow> CHR ''}'' \<notin> set suf \<Longrightarrow> format suf args = Inr suf"
  by (induction suf args rule: format.induct) auto

lemma format_append_plain:
  "format t args = Inr a \<Longrightarrow> CHR ''{'' \<notin> set suf \<Longrightarrow> CHR ''}'' \<notin> set suf
     \<Longrightarrow> format (t @ suf) args = Inr (a @ suf)"
proof (induction t args arbitrary: a rule: format.induct)
  case (1 args)
  then show ?case by (simp add: format_plain)
next
  case (2 c args)
  then show ?case by (cases suf) (auto simp: format_plain split: if_splits sum.splits)
next
  case (3 c d cs args)
  show ?case
  proof (cases "c = CHR ''{''")
    case True
    note c = this
    show ?thesis
    proof (cases "d = CHR ''}''")
      case True
      with c "3.prems" obtain x xs r where args: "args = x # xs" and r: "format cs xs = Inr r"
        and a: "a = x @ r"
        by (auto split: list.splits sum.splits)
      from "3.IH"(1) [OF c True args r "3.prems"(2,3)] c True args a show ?thesis by simp
    next
      case False
      with c "3.prems" have d: "d = CHR ''{''" by (auto split: if_splits)
      with c False "3.prems" obtain r where r: "format cs args = Inr r" and a: "a = CHR ''{'' # r"
        by (auto split: sum.splits)
      from "3.IH"(2) [OF c False d r "3.prems"(2,3)] c False d a show ?thesis by simp
    qed
  next
    case False
    note c = this
    show ?thesis
    proof (cases "c = CHR ''}''")
      case True
      with c "3.prems" have d: "d = CHR ''}''" by (auto split: if_splits)
      with c True "3.prems" obtain r where r: "format cs args = Inr r" and a: "a = CHR ''}'' # r"
        by (auto split: sum.splits)
      from "3.IH"(3) [OF c True d r "3.prems"(2,3)] c True d a show ?thesis by simp
    next
      case False
      with c "3.prems" obtain r where r: "format (d # cs) args = Inr r" and a: "a = c # r"
        by (auto split: sum.splits)
      from "3.IH"(4) [OF c False r "3.prems"(2,3)] c False a show ?thesis by simp
    qed
  qed
qed

lemma format_report_log:
  "format t [h] = Inr a \<Longrightarrow> format (t @ ''-report.log'') [h] = Inr (a @ ''-report.log'')"
  by (rule format_append_plain) simp_all

lemma names_format: "t \<in> set artifact_names \<Longrightarrow> \<exists>a. format t [h] = Inr a"
  by (auto simp: artifact_names_def)

lemma download_and_compare_cases:
  assumes run: "download_and_compare env h tok prev t a aid s = (res, s')"
  shows "failed_build s' = failed_build s \<and>
    ((\<exists>e. res = Inl e \<and> trace s' = trace s \<and> no_baseline s' = no_baseline s
          \<and> summaries s' = summaries s \<and> failed_testsuite s' = failed_testsuite s)
     \<or> (\<exists>b bid e. res = Inl e \<and> b \<noteq> ''No valid hash'' \<and> trace s' = trace s @ [Resolved b bid]
          \<and> no_baseline s' = no_baseline s \<and> summaries s' = summaries s
          \<and> failed_testsuite s' = failed_testsuite s
          \<and> (format (t @ ''-report.log'') [b] = Inl e
              \<or> (\<exists>base s2 s3. format (t @ ''-report.log'') [b] = Inr base
                    \<and> download_artifact env base (str_int bid) tok s2 = (Inl e, s3))))
     \<or> (\<exists>bid. trace s' = trace s @ [Resolved ''No valid hash'' bid,
                  Compared (h @ ''-no-baseline'') (''./logs/'' @ a @ ''-report.log'')
                    (h @ ''-no-baseline'') (''./logs/'' @ a @ ''-report.log'')
                    (''./summaries/'' @ a @ ''-report-summary.md'')]
          \<and> no_baseline s' = no_baseline s @ [a @ ''-report.log\<newline>'']
          \<and> comparison_outcome env (h @ ''-no-baseline'') (''./logs/'' @ a @ ''-report.log'')
                    (h @ ''-no-baseline'') (''./logs/'' @ a @ ''-report.log'')
                    (''./summaries/'' @ a @ ''-report-summary.md'') (a @ ''-report.log'') s s' res)
     \<or> (\<exists>b bid base. b \<noteq> ''No valid hash'' \<and> format (t @ ''-report.log'') [b] = Inr base
          \<and> trace s' = trace s @ [Resolved b bid,
                  Compared b (''./logs/'' @ base) h (''./logs/'' @ a @ ''-report.log'')
                    (''./summaries/'' @ a @ ''-report-summary.md'')]
          \<and> no_baseline s' = no_baseline s
          \<and> comparison_outcome env b (''./logs/'' @ base) h (''./logs/'' @ a @ ''-report.log'')
                    (''./summaries/'' @ a @ ''-report-summary.md'') (a @ ''-report.log'') s s' res))"
proof -
  let ?art = "a @ ''-report.log''"
  let ?cp = "''./summaries/'' @ a @ ''-report-summary.md''"
  obtain r1 s1 where d1: "download_artifact env ?art (str_int aid) tok s = (r1, s1)"
    by (cases "download_artifact env ?art (str_int aid) tok s")
  note f1 = download_artifact_frame [OF d1]
  show ?thesis
  proof (cases r1)
    case (Inl e)
    with run d1 have "res = Inl e" "s' = s1"
      by (simp_all add: download_and_compare_def Let_def)
    with f1 show ?thesis by simp
  next
    case (Inr u)
    note r1 = this
    show ?thesis
    proof (cases "get_valid_artifact_hash env prev tok (t @ ''-report.log'')")
      case (Inl e)
      with run d1 r1 have "res = Inl e" "s' = s1"
        by (simp_all add: download_and_compare_def Let_def)
      with f1 show ?thesis by simp
    next
      case (Inr hb)
      obtain b bid where hb: "hb = (b, bid)" by (cases hb)
      note res = Inr [unfolded hb]
      let ?s2 = "s1\<lparr>trace := trace s1 @ [Resolved b bid]\<rparr>"
      show ?thesis
      proof (cases "b = ''No valid hash''")
        case True
        let ?s3 = "?s2\<lparr>stdout := stdout ?s2 @ [''no baseline for '' @ ?art],
                       no_baseline := no_baseline ?s2 @ [?art @ ''\<newline>'']\<rparr>"
        from run d1 r1 res True
        have tc: "try_compare_logs env (h @ ''-no-baseline'') (''./logs/'' @ ?art)
                   (h @ ''-no-baseline'') (''./logs/'' @ ?art) ?cp ?art ?s3 = (res, s')"
          by (simp add: download_and_compare_def Let_def)
        note fr = try_compare_logs_frame [OF tc]
        have oc: "comparison_outcome env (h @ ''-no-baseline'') (''./logs/'' @ ?art)
                   (h @ ''-no-baseline'') (''./logs/'' @ ?art) ?cp ?art s s' res"
          by (rule comparison_outcome_cong [OF try_compare_logs_outcome [OF tc]])
            (simp_all add: f1)
        from fr f1 oc True show ?thesis by simp
      next
        case False
        note nb = this
        show ?thesis
        proof (cases "format (t @ ''-report.log'') [b]")
          case (Inl e)
          with run d1 r1 res nb have "res = Inl e" "s' = ?s2"
            by (simp_all add: download_and_compare_def Let_def)
          with f1 nb Inl show ?thesis by auto
        next
          case (Inr base)
          note base = this
          obtain r3 s3 where d3: "download_artifact env base (str_int bid) tok ?s2 = (r3, s3)"
            by (cases "download_artifact env base (str_int bid) tok ?s2")
          note f3 = download_artifact_frame [OF d3]
          show ?thesis
          proof (cases r3)
            case (Inl e)
            with run d1 r1 res nb base d3 have "res = Inl e" "s' = s3"
              by (simp_all add: download_and_compare_def Let_def)
            with f1 f3 nb base d3 Inl show ?thesis by auto
          next
            case (Inr u3)
            with run d1 r1 res nb base d3
            have tc: "try_compare_logs env b (''./logs/'' @ base) h (''./logs/'' @ ?art) ?cp ?art s3
                        = (res, s')"
              by (simp add: download_and_compare_def Let_def)
            note fr = try_compare_logs_frame [OF tc]
            have oc: "comparison_outcome env b (''./logs/'' @ base) h (''./logs/'' @ ?art) ?cp ?art
                        s s' res"
              by (rule comparison_outcome_cong [OF try_compare_logs_outcome [OF tc]])
                (simp_all add: f1 f3)
            from fr f1 f3 oc nb base show ?thesis by auto
          qed
        qed
      qed
    qed
  qed
qed

lemma loop_body_cases:
  assumes "loop_body env repo h tok prev t s = (res, s')" and "format t [h] = Inr a"
  shows "(\<exists>r. check_artifact_exists a repo s = (r, s')
            \<and> ((\<exists>e. r = Inl e \<and> res = Inl e) \<or> (r = Inr (- 1) \<and> res = Inr ())))
       \<or> (\<exists>i s1. check_artifact_exists a repo s = (Inr (int i), s1)
            \<and> download_and_compare env h tok prev t a (int i) s1 = (res, s'))"
proof -
  obtain r s1 where c: "check_artifact_exists a repo s = (r, s1)"
    by (cases "check_artifact_exists a repo s")
  have "(\<exists>e. r = Inl e) \<or> r = Inr (- 1) \<or> (\<exists>i. r = Inr (int i))"
    using c by (auto simp: check_artifact_exists_def Let_def split: sum.splits if_splits)
  with assms c show ?thesis
    by (auto simp: loop_body_def)
qed

lemma replace_length:
  "old \<noteq> [] \<Longrightarrow> length new = length old \<Longrightarrow> length (replace old new s) = length s"
proof (induction old new s rule: replace.induct)
  case (1 old new s)
  show ?case
  proof (cases "s = []")
    case True
    with 1 show ?thesis by (simp add: replace.simps)
  next
    case False
    note ne = this
    show ?thesis
    proof (cases "prefix old s")
      case True
      then have "length old \<le> length s" by (rule prefix_length_le)
      with 1 ne True show ?thesis by (subst replace.simps) simp
    next
      case False
      with 1 ne show ?thesis by (subst replace.simps) (cases s, simp_all)
    qed
  qed
qed

lemma extractall_other:
  "n \<notin> fst ` set ms \<Longrightarrow> extractall dir ms fs (dir @ ''/'' @ n) = fs (dir @ ''/'' @ n)"
  by (induction ms arbitrary: fs) (auto simp del: append.simps)

lemma extractall_member:
  "n \<in> fst ` set ms \<Longrightarrow> extractall dir ms fs (dir @ ''/'' @ n) \<noteq> None"
proof (induction ms arbitrary: fs)
  case Nil
  then show ?case by simp
next
  case (Cons m ms)
  obtain n' d where m: "m = (n', d)" by (cases m)
  show ?case
  proof (cases "n \<in> fst ` set ms")
    case True
    with Cons.IH m show ?thesis by (simp del: append.simps)
  next
    case False
    with Cons.prems m have "n' = n" by auto
    with False m show ?thesis by (simp add: extractall_other del: append.simps)
  qed
qed

lemma downloadable_succeeds:
  assumes "downloadable env n i tok"
  shows "\<exists>s'. download_artifact env n i tok s = (Inr (), s')"
proof -
  from assms obtain r ms where r: "requests_get env (artifact_url i) (params tok) = Inr r"
    and ms: "ZipFile env (content r) = Inr ms" and n: "n \<in> fst ` set ms"
    by (auto simp: downloadable_def split: sum.splits)
  have "extractall (''./'' @ split_head ''.log'' n) ms
          ((files s)(''./'' @ replace ''.log'' ''.zip'' n \<mapsto> content r))
          ((''./'' @ split_head ''.log'' n) @ ''/'' @ n) \<noteq> None"
    by (rule extractall_member [OF n])
  with r ms show ?thesis
    by (auto simp: download_artifact_def Let_def simp del: append.simps append_assoc)
qed


subsection \<open>check\_artifact\_exists\<close>

text \<open>
  C4, as the code has it. The claim's reason texts are \<^verbatim>\<open>check logs\<close> and
  \<^verbatim>\<open>cannot find testsuite artifact\<close>; the records written carry \<^verbatim>\<open>Check logs\<close> and
  \<^verbatim>\<open>Cannot find testsuite artifact\<close>. With neither artifact on page 0 one build-failure
  record is appended and \<open>-1\<close> returned; with the build artifact only, one
  testsuite-failure record is appended and \<open>-1\<close> returned; with both, the id of the first
  report artifact is returned and the state is unchanged.
\<close>

theorem check_artifact_exists_policy:
  "(repo n = Inr [] \<and> repo (n @ ''-report.log'') = Inr [] \<longrightarrow>
      check_artifact_exists n repo s =
        (Inr (- 1), s\<lparr>stdout := stdout s @ [''build failed for '' @ n, ''testsuite failed for '' @ n],
                      failed_build := failed_build s @ [n @ ''|Check logs\<newline>'']\<rparr>))
   \<and> (repo n = Inr (b # bs) \<and> repo (n @ ''-report.log'') = Inr [] \<longrightarrow>
      check_artifact_exists n repo s =
        (Inr (- 1), s\<lparr>stdout := stdout s @ [''testsuite failed for '' @ n],
                      failed_testsuite := failed_testsuite s @
                        [n @ ''|Cannot find testsuite artifact\<newline>'']\<rparr>))
   \<and> (repo n = Inr (b # bs) \<and> repo (n @ ''-report.log'') = Inr (r # rs) \<longrightarrow>
      check_artifact_exists n repo s = (Inr (int (ident r)), s))"
  by (simp add: check_artifact_exists_def Let_def)

theorem check_artifact_exists_policy_witness:
  "check_artifact_exists ''gcc-linux-rv32gc-ilp32d-abc123-non-multilib'' (store []) state0 =
     (Inr (- 1), state0\<lparr>stdout := [''build failed for gcc-linux-rv32gc-ilp32d-abc123-non-multilib'',
                                    ''testsuite failed for gcc-linux-rv32gc-ilp32d-abc123-non-multilib''],
                        failed_build := [''gcc-linux-rv32gc-ilp32d-abc123-non-multilib|Check logs\<newline>'']\<rparr>)
   \<and> check_artifact_exists ''gcc-linux-rv32gc-ilp32d-abc123-non-multilib''
        (store [(''gcc-linux-rv32gc-ilp32d-abc123-non-multilib'', 41)]) state0 =
     (Inr (- 1), state0\<lparr>stdout := [''testsuite failed for gcc-linux-rv32gc-ilp32d-abc123-non-multilib''],
                        failed_testsuite :=
                          [''gcc-linux-rv32gc-ilp32d-abc123-non-multilib|Cannot find testsuite artifact\<newline>'']\<rparr>)
   \<and> check_artifact_exists ''gcc-linux-rv32gc-ilp32d-abc123-non-multilib''
        (store [(''gcc-linux-rv32gc-ilp32d-abc123-non-multilib'', 41),
                (''gcc-linux-rv32gc-ilp32d-abc123-non-multilib-report.log'', 42)]) state0 =
     (Inr 42, state0)"
  using check_artifact_exists_policy
          [where repo = "store []" and n = "''gcc-linux-rv32gc-ilp32d-abc123-non-multilib''"
             and s = state0]
        check_artifact_exists_policy
          [where repo = "store [(''gcc-linux-rv32gc-ilp32d-abc123-non-multilib'', 41)]"
             and n = "''gcc-linux-rv32gc-ilp32d-abc123-non-multilib''" and s = state0
             and b = "Artifact 41" and bs = "[]"]
        check_artifact_exists_policy
          [where repo = "store [(''gcc-linux-rv32gc-ilp32d-abc123-non-multilib'', 41),
                (''gcc-linux-rv32gc-ilp32d-abc123-non-multilib-report.log'', 42)]"
             and n = "''gcc-linux-rv32gc-ilp32d-abc123-non-multilib''" and s = state0
             and b = "Artifact 41" and bs = "[]" and r = "Artifact 42" and rs = "[]"]
  by (simp add: store_def state0_def)

text \<open>
  C4 as stated fails: with an empty store the record appended to \<^verbatim>\<open>failed_build.txt\<close>
  is not the artifact name with the reason \<^verbatim>\<open>check logs\<close>, and with the build artifact
  only the record appended to \<^verbatim>\<open>failed_testsuite.txt\<close> does not carry the reason
  \<^verbatim>\<open>cannot find testsuite artifact\<close>.
\<close>

theorem check_artifact_exists_reason_counterexample:
  "store [] ''gcc-linux-rv32gc-ilp32d-abc123-non-multilib'' = Inr []
   \<and> store [] ''gcc-linux-rv32gc-ilp32d-abc123-non-multilib-report.log'' = Inr []
   \<and> failed_build (snd (check_artifact_exists ''gcc-linux-rv32gc-ilp32d-abc123-non-multilib''
        (store []) state0))
      \<noteq> failed_build state0 @ [''gcc-linux-rv32gc-ilp32d-abc123-non-multilib|check logs\<newline>'']
   \<and> store [(''gcc-linux-rv32gc-ilp32d-abc123-non-multilib'', 41)]
         ''gcc-linux-rv32gc-ilp32d-abc123-non-multilib'' = Inr [Artifact 41]
   \<and> store [(''gcc-linux-rv32gc-ilp32d-abc123-non-multilib'', 41)]
         ''gcc-linux-rv32gc-ilp32d-abc123-non-multilib-report.log'' = Inr []
   \<and> failed_testsuite (snd (check_artifact_exists ''gcc-linux-rv32gc-ilp32d-abc123-non-multilib''
        (store [(''gcc-linux-rv32gc-ilp32d-abc123-non-multilib'', 41)]) state0))
      \<noteq> failed_testsuite state0 @
          [''gcc-linux-rv32gc-ilp32d-abc123-non-multilib|cannot find testsuite artifact\<newline>'']"
  by (simp add: check_artifact_exists_def store_def state0_def Let_def)


subsection \<open>download\_artifact\<close>

text \<open>
  C5, as the code has it. An exception of the request, an exception on opening the body
  as an archive, and a missing log after extraction (the archive has no member of the
  artifact's name and no such file was there before) each come back to the caller as
  the result of \<open>download_artifact\<close>. The status of the response is not among the
  conditions: it is printed only.
\<close>

theorem download_artifact_errors_propagate:
  "(requests_get env (artifact_url i) (params tok) = Inl e \<longrightarrow>
      fst (download_artifact env n i tok s) = Inl e)
   \<and> (requests_get env (artifact_url i) (params tok) = Inr r \<and> ZipFile env (content r) = Inl e \<longrightarrow>
      fst (download_artifact env n i tok s) = Inl e)
   \<and> (requests_get env (artifact_url i) (params tok) = Inr r \<and> ZipFile env (content r) = Inr ms
        \<and> n \<notin> fst ` set ms \<and> files s (''./'' @ split_head ''.log'' n @ ''/'' @ n) = None \<longrightarrow>
      fst (download_artifact env n i tok s) =
        Inl (FileNotFoundError (''./'' @ split_head ''.log'' n @ ''/'' @ n)))"
proof (intro conjI impI)
  assume "requests_get env (artifact_url i) (params tok) = Inl e"
  then show "fst (download_artifact env n i tok s) = Inl e"
    by (simp add: download_artifact_def Let_def)
next
  assume "requests_get env (artifact_url i) (params tok) = Inr r \<and> ZipFile env (content r) = Inl e"
  then show "fst (download_artifact env n i tok s) = Inl e"
    by (simp add: download_artifact_def Let_def)
next
  let ?src = "''./'' @ split_head ''.log'' n @ ''/'' @ n"
  assume a: "requests_get env (artifact_url i) (params tok) = Inr r \<and> ZipFile env (content r) = Inr ms
        \<and> n \<notin> fst ` set ms \<and> files s ?src = None"
  have "length (''./'' @ replace ''.log'' ''.zip'' n) < length ?src"
    by (simp add: replace_length)
  then have ne: "?src \<noteq> ''./'' @ replace ''.log'' ''.zip'' n"
    by (metis less_irrefl)
  have "extractall (''./'' @ split_head ''.log'' n) ms
          ((files s)(''./'' @ replace ''.log'' ''.zip'' n \<mapsto> content r))
          ((''./'' @ split_head ''.log'' n) @ ''/'' @ n)
        = ((files s)(''./'' @ replace ''.log'' ''.zip'' n \<mapsto> content r))
            ((''./'' @ split_head ''.log'' n) @ ''/'' @ n)"
    using a by (intro extractall_other) simp
  also have "\<dots> = None"
    using a ne by (simp del: append.simps)
  finally have "extractall (''./'' @ split_head ''.log'' n) ms
          ((files s)(''./'' @ replace ''.log'' ''.zip'' n \<mapsto> content r))
          ((''./'' @ split_head ''.log'' n) @ ''/'' @ n) = None" .
  with a show "fst (download_artifact env n i tok s) = Inl (FileNotFoundError ?src)"
    by (simp add: download_artifact_def Let_def del: append.simps append_assoc)
qed

theorem download_artifact_errors_propagate_witness:
  "fst (download_artifact (demo_env 200 (Inr (''def456'', 43)) (Inr ''summary''))
          ''gcc-linux-rv32gc-ilp32d-abc123-non-multilib-report.log'' ''99'' ''token'' state0)
     = Inl (ConnectionError ''connection refused'')
   \<and> fst (download_artifact (demo_env 404 (Inr (''def456'', 43)) (Inr ''summary''))
          ''gcc-linux-rv32gc-ilp32d-abc123-non-multilib-report.log'' ''44'' ''token'' state0)
     = Inl (BadZipFile ''File is not a zip file'')
   \<and> fst (download_artifact (demo_env 200 (Inr (''def456'', 43)) (Inr ''summary''))
          ''gcc-linux-rv32gc-ilp32d-abc123-non-multilib-report.log'' ''43'' ''token'' state0)
     = Inl (FileNotFoundError
         ''./gcc-linux-rv32gc-ilp32d-abc123-non-multilib-report/gcc-linux-rv32gc-ilp32d-abc123-non-multilib-report.log'')"
  using download_artifact_errors_propagate
          [where env = "demo_env 200 (Inr (''def456'', 43)) (Inr ''summary'')" and i = "''99''"
             and tok = "''token''" and e = "ConnectionError ''connection refused''"
             and n = "''gcc-linux-rv32gc-ilp32d-abc123-non-multilib-report.log''" and s = state0]
        download_artifact_errors_propagate
          [where env = "demo_env 404 (Inr (''def456'', 43)) (Inr ''summary'')" and i = "''44''"
             and tok = "''token''" and e = "BadZipFile ''File is not a zip file''"
             and r = "\<lparr>status_code = 404, content = ''Not Found''\<rparr>"
             and n = "''gcc-linux-rv32gc-ilp32d-abc123-non-multilib-report.log''" and s = state0]
        download_artifact_errors_propagate
          [where env = "demo_env 200 (Inr (''def456'', 43)) (Inr ''summary'')" and i = "''43''"
             and tok = "''token''"
             and r = "\<lparr>status_code = 200, content = ''PK baseline''\<rparr>"
             and ms = "[(''gcc-linux-rv32gc-ilp32d-def456-non-multilib-report.log'', ''baseline log'')]"
             and n = "''gcc-linux-rv32gc-ilp32d-abc123-non-multilib-report.log''" and s = state0]
  by (simp add: demo_env_def artifact_url_def state0_def)


text \<open>
  C5 as stated fails for the status: a response with status 404 whose body is an archive
  with the log is downloaded without an error.
\<close>

theorem download_artifact_status_counterexample:
  "requests_get (demo_env 404 (Inr (''def456'', 43)) (Inr ''summary'')) (artifact_url ''42'')
       (params ''token'') = Inr \<lparr>status_code = 404, content = ''PK current''\<rparr>
   \<and> download_artifact (demo_env 404 (Inr (''def456'', 43)) (Inr ''summary''))
          ''gcc-linux-rv32gc-ilp32d-abc123-non-multilib-report.log'' ''42'' ''token'' state0
     = (Inr (),
        state0\<lparr>stdout := [''gcc-linux-rv32gc-ilp32d-abc123-non-multilib-report.zip'',
                            ''downloading: 42'', ''404''],
                files := [''./gcc-linux-rv32gc-ilp32d-abc123-non-multilib-report.zip'' \<mapsto> ''PK current'',
                          ''./logs/gcc-linux-rv32gc-ilp32d-abc123-non-multilib-report.log'' \<mapsto> ''current log'']\<rparr>)"
  by (simp add: demo_env_def artifact_url_def state0_def download_artifact_def Let_def replace.simps
        str_int_def str_nat.simps fun_upd_twist)

subsection \<open>More on what each step changes\<close>

lemma check_artifact_exists_found:
  "check_artifact_exists a repo s = (Inr (int i), s1) \<Longrightarrow>
     failed_testsuite s1 = failed_testsuite s
     \<and> (\<exists>r rs. repo (a @ ''-report.log'') = Inr (r # rs) \<and> i = ident r)
     \<and> (failed_build s1 = failed_build s \<or> failed_build s1 = failed_build s @ [a @ ''|Check logs\<newline>''])"
  by (auto simp: check_artifact_exists_def Let_def neq_Nil_conv split: sum.splits if_splits)

lemma check_artifact_exists_missing:
  "check_artifact_exists a repo s = (Inr (- 1), s1) \<Longrightarrow>
     (repo a = Inr [] \<and> failed_build s1 = failed_build s @ [a @ ''|Check logs\<newline>'']
        \<and> failed_testsuite s1 = failed_testsuite s)
   \<or> ((\<exists>x xs. repo a = Inr (x # xs)) \<and> failed_build s1 = failed_build s
        \<and> failed_testsuite s1 = failed_testsuite s @ [a @ ''|Cannot find testsuite artifact\<newline>''])"
  by (auto simp: check_artifact_exists_def Let_def neq_Nil_conv split: sum.splits if_splits)

lemma check_artifact_exists_found_build:
  "check_artifact_exists a repo s = (Inr (int i), s1) \<Longrightarrow>
     failed_testsuite s1 = failed_testsuite s
     \<and> (((\<exists>x xs. repo a = Inr (x # xs)) \<and> failed_build s1 = failed_build s)
         \<or> (repo a = Inr [] \<and> failed_build s1 = failed_build s @ [a @ ''|Check logs\<newline>'']))"
  by (auto simp: check_artifact_exists_def Let_def neq_Nil_conv split: sum.splits if_splits)

lemma comparison_outcome_completed:
  assumes "comparison_outcome env b1 b2 b3 b4 b5 art s s' (Inr u)"
  shows "(\<exists>sm. summaries s' = summaries s @ [sm] \<and> failed_testsuite s' = failed_testsuite s)
       \<or> (\<exists>rec. summaries s' = summaries s \<and> failed_testsuite s' = failed_testsuite s @ [rec])"
proof (cases "compare_logs env b1 b2 b3 b4 b5 (files s')")
  case (Inl e)
  with assms show ?thesis
    by (cases e) (auto simp: comparison_outcome_def)
next
  case (Inr sm)
  with assms show ?thesis
    by (auto simp: comparison_outcome_def)
qed

lemma download_and_compare_completed:
  assumes d: "download_and_compare env h tok prev t a aid s = (Inr u, s')"
  shows "\<exists>ft nb sm evs. appended s s' [] ft nb sm \<and> trace s' = trace s @ evs
     \<and> length nb \<le> 1 \<and> length sm + length ft = 1
     \<and> (nb \<noteq> [] \<longleftrightarrow> (\<exists>bid. Resolved ''No valid hash'' bid \<in> set evs))"
proof -
  from download_and_compare_cases [OF d]
  consider (nobase) bid b1 b2 b3 b4 b5 where "failed_build s' = failed_build s"
      "no_baseline s' = no_baseline s @ [a @ ''-report.log\<newline>'']"
      "trace s' = trace s @ [Resolved ''No valid hash'' bid, Compared b1 b2 b3 b4 b5]"
      "comparison_outcome env b1 b2 b3 b4 b5 (a @ ''-report.log'') s s' (Inr u)"
    | (base) b bid b1 b2 b3 b4 b5 where "failed_build s' = failed_build s"
      "no_baseline s' = no_baseline s" "b \<noteq> ''No valid hash''"
      "trace s' = trace s @ [Resolved b bid, Compared b1 b2 b3 b4 b5]"
      "comparison_outcome env b1 b2 b3 b4 b5 (a @ ''-report.log'') s s' (Inr u)"
    by blast
  then show ?thesis
  proof cases
    case nobase
    from comparison_outcome_completed [OF nobase(4)]
    obtain ft sm where "summaries s' = summaries s @ sm" "failed_testsuite s' = failed_testsuite s @ ft"
      "length sm + length ft = 1"
      by (elim disjE exE conjE) (force, force)
    with nobase(1,2) have "appended s s' [] ft [a @ ''-report.log\<newline>''] sm"
      by (simp add: appended_def)
    with nobase(3) \<open>length sm + length ft = 1\<close> show ?thesis
      by (intro exI [of _ ft] exI [of _ "[a @ ''-report.log\<newline>'']"] exI [of _ sm]
            exI [of _ "[Resolved ''No valid hash'' bid, Compared b1 b2 b3 b4 b5]"]) auto
  next
    case base
    from comparison_outcome_completed [OF base(5)]
    obtain ft sm where "summaries s' = summaries s @ sm" "failed_testsuite s' = failed_testsuite s @ ft"
      "length sm + length ft = 1"
      by (elim disjE exE conjE) (force, force)
    with base(1,2) have "appended s s' [] ft [] sm"
      by (simp add: appended_def)
    with base(3,4) \<open>length sm + length ft = 1\<close> show ?thesis
      by (intro exI [of _ ft] exI [of _ "[]"] exI [of _ sm]
            exI [of _ "[Resolved b bid, Compared b1 b2 b3 b4 b5]"]) auto
  qed
qed

lemma appended_records_refl: "appended_records A s s"
  by (simp add: appended_records_def)

lemma appended_records_trans:
  assumes "appended_records A s s1" and "appended_records A s1 s2"
  shows "appended_records A s s2"
proof -
  from assms(1) obtain fb ft nb where 1:
    "failed_build s1 = failed_build s @ fb" "failed_testsuite s1 = failed_testsuite s @ ft"
    "no_baseline s1 = no_baseline s @ nb"
    "\<forall>l \<in> set fb. \<exists>a \<in> A. build_failure_record a l"
    "\<forall>l \<in> set ft. \<exists>a \<in> A. testsuite_failure_record a l"
    "\<forall>l \<in> set nb. \<exists>a \<in> A. no_baseline_record a l"
    unfolding appended_records_def by blast
  from assms(2) obtain fb' ft' nb' where 2:
    "failed_build s2 = failed_build s1 @ fb'" "failed_testsuite s2 = failed_testsuite s1 @ ft'"
    "no_baseline s2 = no_baseline s1 @ nb'"
    "\<forall>l \<in> set fb'. \<exists>a \<in> A. build_failure_record a l"
    "\<forall>l \<in> set ft'. \<exists>a \<in> A. testsuite_failure_record a l"
    "\<forall>l \<in> set nb'. \<exists>a \<in> A. no_baseline_record a l"
    unfolding appended_records_def by blast
  have "failed_build s2 = failed_build s @ (fb @ fb')
      \<and> failed_testsuite s2 = failed_testsuite s @ (ft @ ft')
      \<and> no_baseline s2 = no_baseline s @ (nb @ nb')
      \<and> (\<forall>l \<in> set (fb @ fb'). \<exists>a \<in> A. build_failure_record a l)
      \<and> (\<forall>l \<in> set (ft @ ft'). \<exists>a \<in> A. testsuite_failure_record a l)
      \<and> (\<forall>l \<in> set (nb @ nb'). \<exists>a \<in> A. no_baseline_record a l)"
    using 1 2 by auto
  then show ?thesis
    unfolding appended_records_def by blast
qed

lemma appended_recordsI:
  assumes "failed_build s' = failed_build s @ fb" "failed_testsuite s' = failed_testsuite s @ ft"
    "no_baseline s' = no_baseline s @ nb"
    "\<forall>l \<in> set fb. build_failure_record a l"
    "\<forall>l \<in> set ft. testsuite_failure_record a l"
    "\<forall>l \<in> set nb. no_baseline_record a l" "a \<in> A"
  shows "appended_records A s s'"
  unfolding appended_records_def using assms by blast

lemma check_artifact_exists_cases:
  "check_artifact_exists n repo s = (r, s') \<Longrightarrow>
     (failed_build s' = failed_build s \<and> failed_testsuite s' = failed_testsuite s)
   \<or> (failed_build s' = failed_build s @ [n @ ''|Check logs\<newline>'']
          \<and> failed_testsuite s' = failed_testsuite s)
   \<or> (r = Inr (- 1) \<and> failed_build s' = failed_build s
          \<and> failed_testsuite s' = failed_testsuite s @ [n @ ''|Cannot find testsuite artifact\<newline>''])"
  by (auto simp: check_artifact_exists_def Let_def split: sum.splits if_splits)

lemma check_artifact_exists_records:
  assumes c: "check_artifact_exists a repo s = (r, s1)" and a: "a \<in> A"
  shows "appended_records A s s1"
proof -
  note fr = check_artifact_exists_frame [OF c]
  from check_artifact_exists_cases [OF c]
  consider "failed_build s1 = failed_build s" "failed_testsuite s1 = failed_testsuite s"
    | "failed_build s1 = failed_build s @ [a @ ''|Check logs\<newline>'']"
      "failed_testsuite s1 = failed_testsuite s"
    | "failed_build s1 = failed_build s"
      "failed_testsuite s1 = failed_testsuite s @ [a @ ''|Cannot find testsuite artifact\<newline>'']"
    by blast
  then show ?thesis
  proof cases
    case 1
    then show ?thesis
      by (intro appended_recordsI [where fb = "[]" and ft = "[]" and nb = "[]" and a = a])
        (simp_all add: fr a)
  next
    case 2
    then show ?thesis
      by (intro appended_recordsI [where fb = "[a @ ''|Check logs\<newline>'']" and ft = "[]"
            and nb = "[]" and a = a])
        (simp_all add: fr a build_failure_record_def)
  next
    case 3
    then show ?thesis
      by (intro appended_recordsI [where fb = "[]" and nb = "[]" and a = a
            and ft = "[a @ ''|Cannot find testsuite artifact\<newline>'']"])
        (simp_all add: fr a testsuite_failure_record_def)
  qed
qed

lemma comparison_outcome_records:
  assumes "comparison_outcome env b1 b2 b3 b4 b5 (a @ ''-report.log'') s s' res"
  shows "\<exists>ft. failed_testsuite s' = failed_testsuite s @ ft \<and> (\<forall>l \<in> set ft. testsuite_failure_record a l)"
proof (cases "compare_logs env b1 b2 b3 b4 b5 (files s')")
  case (Inl e)
  with assms show ?thesis
    by (cases e) (auto simp: comparison_outcome_def testsuite_failure_record_def)
next
  case (Inr sm)
  with assms show ?thesis
    by (auto simp: comparison_outcome_def)
qed

lemma download_and_compare_records:
  assumes d: "download_and_compare env h tok prev t a aid s = (res, s')" and a: "a \<in> A"
  shows "appended_records A s s'"
proof -
  from download_and_compare_cases [OF d]
  consider (quiet) "failed_build s' = failed_build s" "failed_testsuite s' = failed_testsuite s"
      "no_baseline s' = no_baseline s"
    | (nobase) b1 b2 b3 b4 b5 where "failed_build s' = failed_build s"
      "no_baseline s' = no_baseline s @ [a @ ''-report.log\<newline>'']"
      "comparison_outcome env b1 b2 b3 b4 b5 (a @ ''-report.log'') s s' res"
    | (base) b1 b2 b3 b4 b5 where "failed_build s' = failed_build s"
      "no_baseline s' = no_baseline s"
      "comparison_outcome env b1 b2 b3 b4 b5 (a @ ''-report.log'') s s' res"
    by blast
  then show ?thesis
  proof cases
    case quiet
    then show ?thesis
      by (intro appended_recordsI [where fb = "[]" and ft = "[]" and nb = "[]" and a = a])
        (simp_all add: a)
  next
    case nobase
    from comparison_outcome_records [OF nobase(3)] obtain ft where
      "failed_testsuite s' = failed_testsuite s @ ft" "\<forall>l \<in> set ft. testsuite_failure_record a l"
      by blast
    with nobase(1,2) show ?thesis
      by (intro appended_recordsI [where fb = "[]" and ft = ft
            and nb = "[a @ ''-report.log\<newline>'']" and a = a])
        (simp_all add: a no_baseline_record_def)
  next
    case base
    from comparison_outcome_records [OF base(3)] obtain ft where
      "failed_testsuite s' = failed_testsuite s @ ft" "\<forall>l \<in> set ft. testsuite_failure_record a l"
      by blast
    with base(1,2) show ?thesis
      by (intro appended_recordsI [where fb = "[]" and ft = ft and nb = "[]" and a = a])
        (simp_all add: a)
  qed
qed

lemma loop_body_records:
  assumes run: "loop_body env repo h tok prev t s = (res, s')" and fmt: "format t [h] = Inr a"
    and a: "a \<in> A"
  shows "appended_records A s s'"
proof -
  from loop_body_cases [OF run fmt]
  consider (stop) r where "check_artifact_exists a repo s = (r, s')"
    | (go) i s1 where "check_artifact_exists a repo s = (Inr (int i), s1)"
        and "download_and_compare env h tok prev t a (int i) s1 = (res, s')"
    by blast
  then show ?thesis
  proof cases
    case stop
    then show ?thesis by (rule check_artifact_exists_records) (rule a)
  next
    case go
    from check_artifact_exists_records [OF go(1) a] download_and_compare_records [OF go(2) a]
    show ?thesis by (rule appended_records_trans)
  qed
qed

lemma for_artifact_names_records:
  assumes "set ts \<subseteq> set artifact_names"
    and "for_artifact_names env repo h tok prev ts s = (res, s')"
  shows "appended_records (rendered h) s s'"
  using assms
proof (induction ts arbitrary: s)
  case Nil
  then show ?case by (simp add: appended_records_refl)
next
  case (Cons t ts)
  from Cons.prems(1) have t: "t \<in> set artifact_names" by simp
  with names_format obtain a where fmt: "format t [h] = Inr a" by blast
  with t have a: "a \<in> rendered h" by (auto simp: rendered_def)
  obtain r1 s1 where b: "loop_body env repo h tok prev t s = (r1, s1)"
    by (cases "loop_body env repo h tok prev t s")
  note step = loop_body_records [OF b fmt a]
  show ?case
  proof (cases r1)
    case (Inl e)
    with Cons.prems(2) b have "s' = s1" by simp
    with step show ?thesis by simp
  next
    case (Inr u)
    with Cons.prems(2) b have "for_artifact_names env repo h tok prev ts s1 = (res, s')" by simp
    with Cons.IH Cons.prems(1) have "appended_records (rendered h) s1 s'" by simp
    with step show ?thesis by (rule appended_records_trans)
  qed
qed

subsection \<open>Runs in the example worlds\<close>

text \<open>
  The loop body for the first template and the whole run, in the example worlds, for the
  hash \<^verbatim>\<open>abc123\<close>: what was printed and the files are left open, the logs, the
  summaries and the calls are given.
\<close>

lemmas demo_defs = demo_env_def artifact_url_def params_def state0_def download_artifact_def Let_def
  replace.simps str_int_def str_nat.simps store_def loop_body_def check_artifact_exists_def
  download_and_compare_def try_compare_logs_def

lemma run_no_baseline:
  "\<exists>out fs. loop_body (demo_env 200 (Inr (''No valid hash'', - 1)) (Inr ''summary''))
        (store [(''gcc-linux-rv32gc-ilp32d-abc123-non-multilib'', 41),
                (''gcc-linux-rv32gc-ilp32d-abc123-non-multilib-report.log'', 42)])
        ''abc123'' ''token'' [''def456''] ''gcc-linux-rv32gc-ilp32d-{}-non-multilib'' state0
     = (Inr (),
        \<lparr>stdout = out, files = fs,
         failed_build = [],
         failed_testsuite = [],
         no_baseline = [''gcc-linux-rv32gc-ilp32d-abc123-non-multilib-report.log\<newline>''],
         summaries = [(''./summaries/gcc-linux-rv32gc-ilp32d-abc123-non-multilib-report-summary.md'', ''summary'')],
         trace = [Resolved ''No valid hash'' (- 1),
            Compared ''abc123-no-baseline''
           ''./logs/gcc-linux-rv32gc-ilp32d-abc123-non-multilib-report.log''
           ''abc123-no-baseline''
           ''./logs/gcc-linux-rv32gc-ilp32d-abc123-non-multilib-report.log''
           ''./summaries/gcc-linux-rv32gc-ilp32d-abc123-non-multilib-report-summary.md'']\<rparr>)"
  by (simp add: demo_defs)

lemma run_baseline:
  "\<exists>out fs. loop_body (demo_env 200 (Inr (''def456'', 43)) (Inr ''summary''))
        (store [(''gcc-linux-rv32gc-ilp32d-abc123-non-multilib'', 41),
                (''gcc-linux-rv32gc-ilp32d-abc123-non-multilib-report.log'', 42)])
        ''abc123'' ''token'' [''def456''] ''gcc-linux-rv32gc-ilp32d-{}-non-multilib'' state0
     = (Inr (),
        \<lparr>stdout = out, files = fs,
         failed_build = [],
         failed_testsuite = [],
         no_baseline = [],
         summaries = [(''./summaries/gcc-linux-rv32gc-ilp32d-abc123-non-multilib-report-summary.md'', ''summary'')],
         trace = [Resolved ''def456'' 43,
            Compared ''def456''
           ''./logs/gcc-linux-rv32gc-ilp32d-def456-non-multilib-report.log''
           ''abc123''
           ''./logs/gcc-linux-rv32gc-ilp32d-abc123-non-multilib-report.log''
           ''./summaries/gcc-linux-rv32gc-ilp32d-abc123-non-multilib-report-summary.md'']\<rparr>)"
  by (simp add: demo_defs)

lemma run_baseline_bad_log:
  "\<exists>out fs. loop_body (demo_env 200 (Inr (''def456'', 43)) (Inl (ValueError ''bad log'')))
        (store [(''gcc-linux-rv32gc-ilp32d-abc123-non-multilib'', 41),
                (''gcc-linux-rv32gc-ilp32d-abc123-non-multilib-report.log'', 42)])
        ''abc123'' ''token'' [''def456''] ''gcc-linux-rv32gc-ilp32d-{}-non-multilib'' state0
     = (Inr (),
        \<lparr>stdout = out, files = fs,
         failed_build = [],
         failed_testsuite = [''gcc-linux-rv32gc-ilp32d-abc123-non-multilib-report.log|bad log\<newline>''],
         no_baseline = [],
         summaries = [],
         trace = [Resolved ''def456'' 43,
            Compared ''def456''
           ''./logs/gcc-linux-rv32gc-ilp32d-def456-non-multilib-report.log''
           ''abc123''
           ''./logs/gcc-linux-rv32gc-ilp32d-abc123-non-multilib-report.log''
           ''./summaries/gcc-linux-rv32gc-ilp32d-abc123-non-multilib-report-summary.md'']\<rparr>)"
  by (simp add: demo_defs)

lemma run_baseline_key_error:
  "\<exists>out fs. loop_body (demo_env 200 (Inr (''def456'', 43)) (Inl (KeyError ''PASS'')))
        (store [(''gcc-linux-rv32gc-ilp32d-abc123-non-multilib'', 41),
                (''gcc-linux-rv32gc-ilp32d-abc123-non-multilib-report.log'', 42)])
        ''abc123'' ''token'' [''def456''] ''gcc-linux-rv32gc-ilp32d-{}-non-multilib'' state0
     = (Inl (KeyError ''PASS''),
        \<lparr>stdout = out, files = fs,
         failed_build = [],
         failed_testsuite = [],
         no_baseline = [],
         summaries = [],
         trace = [Resolved ''def456'' 43,
            Compared ''def456''
           ''./logs/gcc-linux-rv32gc-ilp32d-def456-non-multilib-report.log''
           ''abc123''
           ''./logs/gcc-linux-rv32gc-ilp32d-abc123-non-multilib-report.log''
           ''./summaries/gcc-linux-rv32gc-ilp32d-abc123-non-multilib-report-summary.md'']\<rparr>)"
  by (simp add: demo_defs)

lemma run_baseline_unreachable:
  "\<exists>out fs. loop_body (demo_env 200 (Inr (''def456'', 99)) (Inr ''summary''))
        (store [(''gcc-linux-rv32gc-ilp32d-abc123-non-multilib'', 41),
                (''gcc-linux-rv32gc-ilp32d-abc123-non-multilib-report.log'', 42)])
        ''abc123'' ''token'' [''def456''] ''gcc-linux-rv32gc-ilp32d-{}-non-multilib'' state0
     = (Inl (ConnectionError ''connection refused''),
        \<lparr>stdout = out, files = fs,
         failed_build = [],
         failed_testsuite = [],
         no_baseline = [],
         summaries = [],
         trace = [Resolved ''def456'' 99]\<rparr>)"
  by (simp add: demo_defs)

lemma run_report_only:
  "\<exists>out fs. loop_body (demo_env 200 (Inr (''def456'', 43)) (Inr ''summary''))
        (store [(''gcc-linux-rv32gc-ilp32d-abc123-non-multilib-report.log'', 42)])
        ''abc123'' ''token'' [''def456''] ''gcc-linux-rv32gc-ilp32d-{}-non-multilib'' state0
     = (Inr (),
        \<lparr>stdout = out, files = fs,
         failed_build = [''gcc-linux-rv32gc-ilp32d-abc123-non-multilib|Check logs\<newline>''],
         failed_testsuite = [],
         no_baseline = [],
         summaries = [(''./summaries/gcc-linux-rv32gc-ilp32d-abc123-non-multilib-report-summary.md'', ''summary'')],
         trace = [Resolved ''def456'' 43,
            Compared ''def456''
           ''./logs/gcc-linux-rv32gc-ilp32d-def456-non-multilib-report.log''
           ''abc123''
           ''./logs/gcc-linux-rv32gc-ilp32d-abc123-non-multilib-report.log''
           ''./summaries/gcc-linux-rv32gc-ilp32d-abc123-non-multilib-report-summary.md'']\<rparr>)"
  by (simp add: demo_defs)

lemma run_all_key_error:
  "\<exists>out fs. download_and_compare_all_artifacts
        (demo_env 200 (Inr (''def456'', 43)) (Inl (KeyError ''PASS'')))
        ''abc123'' ''token'' state0
     = (Inl (KeyError ''PASS''),
        \<lparr>stdout = out, files = fs,
         failed_build = [],
         failed_testsuite = [],
         no_baseline = [],
         summaries = [],
         trace = [Resolved ''def456'' 43,
            Compared ''def456''
           ''./logs/gcc-linux-rv32gc-ilp32d-def456-non-multilib-report.log''
           ''abc123''
           ''./logs/gcc-linux-rv32gc-ilp32d-abc123-non-multilib-report.log''
           ''./summaries/gcc-linux-rv32gc-ilp32d-abc123-non-multilib-report-summary.md'']\<rparr>)"
  by (simp add: demo_defs download_and_compare_all_artifacts_def names_eq artifact_names_def)

lemma run_all_no_baseline_bad_log:
  "\<exists>out fs. download_and_compare_all_artifacts
        (demo_env 200 (Inr (''No valid hash'', - 1)) (Inl (ValueError ''bad log'')))
        ''abc123'' ''token'' state0
     = (Inr (),
        \<lparr>stdout = out, files = fs,
         failed_build = [''gcc-linux-rv64gc-lp64d-abc123-multilib|Check logs\<newline>'',
            ''gcc-linux-rv64gc-lp64d-abc123-non-multilib|Check logs\<newline>'',
            ''gcc-newlib-rv32gc-ilp32d-abc123-non-multilib|Check logs\<newline>'',
            ''gcc-newlib-rv64gc-lp64d-abc123-multilib|Check logs\<newline>'',
            ''gcc-newlib-rv64gc-lp64d-abc123-non-multilib|Check logs\<newline>''],
         failed_testsuite = [''gcc-linux-rv32gc-ilp32d-abc123-non-multilib-report.log|bad log\<newline>''],
         no_baseline = [''gcc-linux-rv32gc-ilp32d-abc123-non-multilib-report.log\<newline>''],
         summaries = [],
         trace = [Resolved ''No valid hash'' (- 1),
            Compared ''abc123-no-baseline''
           ''./logs/gcc-linux-rv32gc-ilp32d-abc123-non-multilib-report.log''
           ''abc123-no-baseline''
           ''./logs/gcc-linux-rv32gc-ilp32d-abc123-non-multilib-report.log''
           ''./summaries/gcc-linux-rv32gc-ilp32d-abc123-non-multilib-report-summary.md'']\<rparr>)"
  by (simp add: demo_defs download_and_compare_all_artifacts_def names_eq artifact_names_def)

subsection \<open>The build artifact is missing and the report artifact is not\<close>

text \<open>
  C10. When page 0 has no build artifact but has a report artifact, \<open>check_artifact_exists\<close>
  prints the build failure, appends the build-failure record and returns the id of the
  report artifact, which is not the sentinel \<open>-1\<close>; the loop body then does not take
  the \<^verbatim>\<open>continue\<close> of line 129 but goes on with the download and the comparison for
  that id (lines 130--168).
\<close>

theorem build_absent_report_present_proceeds:
  assumes "repo n = Inr []" and "repo (n @ ''-report.log'') = Inr (r # rs)"
  shows "check_artifact_exists n repo s =
      (Inr (int (ident r)),
       s\<lparr>stdout := stdout s @ [''build failed for '' @ n],
         failed_build := failed_build s @ [n @ ''|Check logs\<newline>'']\<rparr>)
     \<and> int (ident r) \<noteq> - 1
     \<and> (format t [h] = Inr n \<longrightarrow>
          loop_body env repo h tok prev t s =
            download_and_compare env h tok prev t n (int (ident r))
              (s\<lparr>stdout := stdout s @ [''build failed for '' @ n],
                 failed_build := failed_build s @ [n @ ''|Check logs\<newline>'']\<rparr>))"
  using assms by (simp add: check_artifact_exists_def loop_body_def Let_def)

text \<open>
  In the example world with the report artifact only, the build failure is recorded and
  the comparator is still called and writes its summary.
\<close>

theorem build_absent_report_present_proceeds_witness:
  "check_artifact_exists ''gcc-linux-rv32gc-ilp32d-abc123-non-multilib''
      (store [(''gcc-linux-rv32gc-ilp32d-abc123-non-multilib-report.log'', 42)]) state0
     = (Inr 42, state0\<lparr>stdout := [''build failed for gcc-linux-rv32gc-ilp32d-abc123-non-multilib''],
                 failed_build := [''gcc-linux-rv32gc-ilp32d-abc123-non-multilib|Check logs\<newline>'']\<rparr>)
   \<and> loop_body (demo_env 200 (Inr (''def456'', 43)) (Inr ''summary''))
        (store [(''gcc-linux-rv32gc-ilp32d-abc123-non-multilib-report.log'', 42)])
        ''abc123'' ''token'' [''def456''] ''gcc-linux-rv32gc-ilp32d-{}-non-multilib'' state0
     = download_and_compare (demo_env 200 (Inr (''def456'', 43)) (Inr ''summary''))
        ''abc123'' ''token'' [''def456''] ''gcc-linux-rv32gc-ilp32d-{}-non-multilib''
        ''gcc-linux-rv32gc-ilp32d-abc123-non-multilib'' 42
        (state0\<lparr>stdout := [''build failed for gcc-linux-rv32gc-ilp32d-abc123-non-multilib''],
                 failed_build := [''gcc-linux-rv32gc-ilp32d-abc123-non-multilib|Check logs\<newline>'']\<rparr>)
   \<and> failed_build (snd (loop_body (demo_env 200 (Inr (''def456'', 43)) (Inr ''summary''))
        (store [(''gcc-linux-rv32gc-ilp32d-abc123-non-multilib-report.log'', 42)])
        ''abc123'' ''token'' [''def456''] ''gcc-linux-rv32gc-ilp32d-{}-non-multilib'' state0))
     = [''gcc-linux-rv32gc-ilp32d-abc123-non-multilib|Check logs\<newline>'']
   \<and> trace (snd (loop_body (demo_env 200 (Inr (''def456'', 43)) (Inr ''summary''))
        (store [(''gcc-linux-rv32gc-ilp32d-abc123-non-multilib-report.log'', 42)])
        ''abc123'' ''token'' [''def456''] ''gcc-linux-rv32gc-ilp32d-{}-non-multilib'' state0))
     = [Resolved ''def456'' 43,
        Compared ''def456''
           ''./logs/gcc-linux-rv32gc-ilp32d-def456-non-multilib-report.log''
           ''abc123''
           ''./logs/gcc-linux-rv32gc-ilp32d-abc123-non-multilib-report.log''
           ''./summaries/gcc-linux-rv32gc-ilp32d-abc123-non-multilib-report-summary.md'']
   \<and> summaries (snd (loop_body (demo_env 200 (Inr (''def456'', 43)) (Inr ''summary''))
        (store [(''gcc-linux-rv32gc-ilp32d-abc123-non-multilib-report.log'', 42)])
        ''abc123'' ''token'' [''def456''] ''gcc-linux-rv32gc-ilp32d-{}-non-multilib'' state0))
     = [(''./summaries/gcc-linux-rv32gc-ilp32d-abc123-non-multilib-report-summary.md'', ''summary'')]"
proof -
  from run_report_only obtain out fs s' where
    run: "loop_body (demo_env 200 (Inr (''def456'', 43)) (Inr ''summary''))
        (store [(''gcc-linux-rv32gc-ilp32d-abc123-non-multilib-report.log'', 42)])
        ''abc123'' ''token'' [''def456''] ''gcc-linux-rv32gc-ilp32d-{}-non-multilib'' state0
      = (Inr (), s')"
    and s': "s' = \<lparr>stdout = out, files = fs,
         failed_build = [''gcc-linux-rv32gc-ilp32d-abc123-non-multilib|Check logs\<newline>''],
         failed_testsuite = [],
         no_baseline = [],
         summaries = [(''./summaries/gcc-linux-rv32gc-ilp32d-abc123-non-multilib-report-summary.md'', ''summary'')],
         trace = [Resolved ''def456'' 43,
            Compared ''def456''
           ''./logs/gcc-linux-rv32gc-ilp32d-def456-non-multilib-report.log''
           ''abc123''
           ''./logs/gcc-linux-rv32gc-ilp32d-abc123-non-multilib-report.log''
           ''./summaries/gcc-linux-rv32gc-ilp32d-abc123-non-multilib-report-summary.md'']\<rparr>"
    by blast
  have absent: "(store [(''gcc-linux-rv32gc-ilp32d-abc123-non-multilib-report.log'', 42)]) ''gcc-linux-rv32gc-ilp32d-abc123-non-multilib'' = Inr []"
    by (simp add: store_def)
  have present: "(store [(''gcc-linux-rv32gc-ilp32d-abc123-non-multilib-report.log'', 42)]) (''gcc-linux-rv32gc-ilp32d-abc123-non-multilib'' @ ''-report.log'') = Inr (Artifact 42 # [])"
    by (simp add: store_def)
  have fmt: "format ''gcc-linux-rv32gc-ilp32d-{}-non-multilib'' [''abc123'']
     = Inr ''gcc-linux-rv32gc-ilp32d-abc123-non-multilib''"
    by simp
  have st: "stdout state0 = []" "failed_build state0 = []"
    by (simp_all add: state0_def)
  note th = build_absent_report_present_proceeds [OF absent present, where s = state0
      and t = "''gcc-linux-rv32gc-ilp32d-{}-non-multilib''" and h = "''abc123''"
      and env = "demo_env 200 (Inr (''def456'', 43)) (Inr ''summary'')" and tok = "''token''"
      and prev = "[''def456'']"]
  from th have c1: "check_artifact_exists ''gcc-linux-rv32gc-ilp32d-abc123-non-multilib''
      (store [(''gcc-linux-rv32gc-ilp32d-abc123-non-multilib-report.log'', 42)]) state0
     = (Inr 42, state0\<lparr>stdout := [''build failed for gcc-linux-rv32gc-ilp32d-abc123-non-multilib''],
                 failed_build := [''gcc-linux-rv32gc-ilp32d-abc123-non-multilib|Check logs\<newline>'']\<rparr>)"
    by (simp add: st)
  from th fmt have c2: "loop_body (demo_env 200 (Inr (''def456'', 43)) (Inr ''summary''))
        (store [(''gcc-linux-rv32gc-ilp32d-abc123-non-multilib-report.log'', 42)])
        ''abc123'' ''token'' [''def456''] ''gcc-linux-rv32gc-ilp32d-{}-non-multilib'' state0
     = download_and_compare (demo_env 200 (Inr (''def456'', 43)) (Inr ''summary''))
        ''abc123'' ''token'' [''def456''] ''gcc-linux-rv32gc-ilp32d-{}-non-multilib''
        ''gcc-linux-rv32gc-ilp32d-abc123-non-multilib'' 42
        (state0\<lparr>stdout := [''build failed for gcc-linux-rv32gc-ilp32d-abc123-non-multilib''],
                 failed_build := [''gcc-linux-rv32gc-ilp32d-abc123-non-multilib|Check logs\<newline>'']\<rparr>)"
    by (simp add: st)
  have c3: "failed_build (snd (loop_body (demo_env 200 (Inr (''def456'', 43)) (Inr ''summary''))
        (store [(''gcc-linux-rv32gc-ilp32d-abc123-non-multilib-report.log'', 42)])
        ''abc123'' ''token'' [''def456''] ''gcc-linux-rv32gc-ilp32d-{}-non-multilib'' state0))
     = [''gcc-linux-rv32gc-ilp32d-abc123-non-multilib|Check logs\<newline>'']"
    by (simp add: run s')
  have c4: "trace (snd (loop_body (demo_env 200 (Inr (''def456'', 43)) (Inr ''summary''))
        (store [(''gcc-linux-rv32gc-ilp32d-abc123-non-multilib-report.log'', 42)])
        ''abc123'' ''token'' [''def456''] ''gcc-linux-rv32gc-ilp32d-{}-non-multilib'' state0))
     = [Resolved ''def456'' 43,
        Compared ''def456''
           ''./logs/gcc-linux-rv32gc-ilp32d-def456-non-multilib-report.log''
           ''abc123''
           ''./logs/gcc-linux-rv32gc-ilp32d-abc123-non-multilib-report.log''
           ''./summaries/gcc-linux-rv32gc-ilp32d-abc123-non-multilib-report-summary.md'']"
    by (simp add: run s')
  have c5: "summaries (snd (loop_body (demo_env 200 (Inr (''def456'', 43)) (Inr ''summary''))
        (store [(''gcc-linux-rv32gc-ilp32d-abc123-non-multilib-report.log'', 42)])
        ''abc123'' ''token'' [''def456''] ''gcc-linux-rv32gc-ilp32d-{}-non-multilib'' state0))
     = [(''./summaries/gcc-linux-rv32gc-ilp32d-abc123-non-multilib-report-summary.md'', ''summary'')]"
    by (simp add: run s')
  show ?thesis
    by (intro conjI c1 c2 c3 c4 c5)
qed

subsection \<open>The comparison against a baseline\<close>

text \<open>
  C2, as the code has it. Let the events of one pass of the loop body for a template
  start with the resolver returning a hash \<open>b\<close> that is not \<^verbatim>\<open>No valid hash\<close>, and let the
  baseline log be downloadable. Then the report artifact of the current hash exists and
  the only other event of the pass is one call of the comparator, with the baseline hash,
  \<^verbatim>\<open>./logs/\<close> and the template filled with the baseline hash and \<^verbatim>\<open>-report.log\<close>, the
  current hash, \<^verbatim>\<open>./logs/\<close> and the template filled with the current hash and
  \<^verbatim>\<open>-report.log\<close>, and \<^verbatim>\<open>./summaries/\<close> and the template filled with the current hash
  and \<^verbatim>\<open>-report-summary.md\<close>. The claim leaves the download of the baseline out.
\<close>

theorem baseline_found_compares_once:
  assumes fmt: "format t [h] = Inr cur"
    and fmtb: "format t [b] = Inr base"
    and run: "loop_body env repo h tok prev t s = (res, s')"
    and resolved: "trace s' = trace s @ Resolved b bid # evs"
    and found: "b \<noteq> ''No valid hash''"
    and dl: "downloadable env (base @ ''-report.log'') (str_int bid) tok"
  shows "(\<exists>r rs. repo (cur @ ''-report.log'') = Inr (r # rs))
     \<and> evs = [Compared b (''./logs/'' @ base @ ''-report.log'')
                 h (''./logs/'' @ cur @ ''-report.log'')
                 (''./summaries/'' @ cur @ ''-report-summary.md'')]"
proof -
  note fb = format_report_log [OF fmtb]
  from loop_body_cases [OF run fmt]
  consider (stop) r where "check_artifact_exists cur repo s = (r, s')"
    | (go) i s1 where "check_artifact_exists cur repo s = (Inr (int i), s1)"
        and "download_and_compare env h tok prev t cur (int i) s1 = (res, s')"
    by blast
  then show ?thesis
  proof cases
    case stop
    from check_artifact_exists_frame [OF this] resolved show ?thesis by simp
  next
    case go
    note c = go(1) and d = go(2)
    note fr = check_artifact_exists_frame [OF c]
    note fd = check_artifact_exists_found [OF c]
    have nofail: "download_artifact env (base @ ''-report.log'') (str_int bid) tok s2 \<noteq> (Inl e, s3)"
      for e s2 s3
      using downloadable_succeeds [OF dl, of s2] by auto
    from download_and_compare_cases [OF d] fr fd resolved found fb nofail show ?thesis
      by (elim disjE exE conjE) simp_all
  qed
qed

theorem baseline_found_compares_once_witness:
  "format ''gcc-linux-rv32gc-ilp32d-{}-non-multilib'' [''abc123'']
     = Inr ''gcc-linux-rv32gc-ilp32d-abc123-non-multilib''
   \<and> format ''gcc-linux-rv32gc-ilp32d-{}-non-multilib'' [''def456'']
     = Inr ''gcc-linux-rv32gc-ilp32d-def456-non-multilib''
   \<and> downloadable (demo_env 200 (Inr (''def456'', 43)) (Inr ''summary''))
        ''gcc-linux-rv32gc-ilp32d-def456-non-multilib-report.log'' (str_int 43) ''token''
   \<and> trace (snd (loop_body (demo_env 200 (Inr (''def456'', 43)) (Inr ''summary''))
        (store [(''gcc-linux-rv32gc-ilp32d-abc123-non-multilib'', 41),
                (''gcc-linux-rv32gc-ilp32d-abc123-non-multilib-report.log'', 42)])
        ''abc123'' ''token'' [''def456''] ''gcc-linux-rv32gc-ilp32d-{}-non-multilib'' state0))
     = trace state0 @ Resolved ''def456'' 43 #
        [Compared ''def456''
           ''./logs/gcc-linux-rv32gc-ilp32d-def456-non-multilib-report.log''
           ''abc123''
           ''./logs/gcc-linux-rv32gc-ilp32d-abc123-non-multilib-report.log''
           ''./summaries/gcc-linux-rv32gc-ilp32d-abc123-non-multilib-report-summary.md'']"
proof -
  from run_baseline obtain out fs s' where
    run: "loop_body (demo_env 200 (Inr (''def456'', 43)) (Inr ''summary''))
        (store [(''gcc-linux-rv32gc-ilp32d-abc123-non-multilib'', 41),
                (''gcc-linux-rv32gc-ilp32d-abc123-non-multilib-report.log'', 42)])
        ''abc123'' ''token'' [''def456''] ''gcc-linux-rv32gc-ilp32d-{}-non-multilib'' state0
      = (Inr (), s')"
    and s': "s' = \<lparr>stdout = out, files = fs,
         failed_build = [],
         failed_testsuite = [],
         no_baseline = [],
         summaries = [(''./summaries/gcc-linux-rv32gc-ilp32d-abc123-non-multilib-report-summary.md'', ''summary'')],
         trace = [Resolved ''def456'' 43,
            Compared ''def456''
           ''./logs/gcc-linux-rv32gc-ilp32d-def456-non-multilib-report.log''
           ''abc123''
           ''./logs/gcc-linux-rv32gc-ilp32d-abc123-non-multilib-report.log''
           ''./summaries/gcc-linux-rv32gc-ilp32d-abc123-non-multilib-report-summary.md'']\<rparr>"
    by blast
  have fmt: "format ''gcc-linux-rv32gc-ilp32d-{}-non-multilib'' [''abc123'']
     = Inr ''gcc-linux-rv32gc-ilp32d-abc123-non-multilib''"
    by simp
  have fmtb: "format ''gcc-linux-rv32gc-ilp32d-{}-non-multilib'' [''def456'']
     = Inr ''gcc-linux-rv32gc-ilp32d-def456-non-multilib''"
    by simp
  have tr: "trace s' = trace state0 @ Resolved ''def456'' 43 #
        [Compared ''def456''
           ''./logs/gcc-linux-rv32gc-ilp32d-def456-non-multilib-report.log''
           ''abc123''
           ''./logs/gcc-linux-rv32gc-ilp32d-abc123-non-multilib-report.log''
           ''./summaries/gcc-linux-rv32gc-ilp32d-abc123-non-multilib-report-summary.md'']"
    by (simp add: s' state0_def)
  have found: "''def456'' \<noteq> ''No valid hash''"
    by simp
  have dl: "downloadable (demo_env 200 (Inr (''def456'', 43)) (Inr ''summary''))
        (''gcc-linux-rv32gc-ilp32d-def456-non-multilib'' @ ''-report.log'') (str_int 43) ''token''"
    by (simp add: downloadable_def demo_defs)
  from baseline_found_compares_once [OF fmt fmtb run tr found dl] fmt fmtb tr dl
  show ?thesis unfolding run snd_conv by simp
qed

text \<open>
  C2 as stated fails: the report artifact of the current hash exists and the resolver
  returns the baseline \<^verbatim>\<open>def456\<close>, but the baseline's artifact cannot be fetched; the
  error leaves the loop body and the comparator is never called.
\<close>

theorem baseline_download_fails_counterexample:
  "(store [(''gcc-linux-rv32gc-ilp32d-abc123-non-multilib'', 41),
                (''gcc-linux-rv32gc-ilp32d-abc123-non-multilib-report.log'', 42)])
      ''gcc-linux-rv32gc-ilp32d-abc123-non-multilib-report.log'' = Inr [Artifact 42]
   \<and> get_valid_artifact_hash (demo_env 200 (Inr (''def456'', 99)) (Inr ''summary''))
        [''def456''] ''token'' ''gcc-linux-rv32gc-ilp32d-{}-non-multilib-report.log''
      = Inr (''def456'', 99)
   \<and> fst (loop_body (demo_env 200 (Inr (''def456'', 99)) (Inr ''summary''))
        (store [(''gcc-linux-rv32gc-ilp32d-abc123-non-multilib'', 41),
                (''gcc-linux-rv32gc-ilp32d-abc123-non-multilib-report.log'', 42)])
        ''abc123'' ''token'' [''def456''] ''gcc-linux-rv32gc-ilp32d-{}-non-multilib'' state0)
      = Inl (ConnectionError ''connection refused'')
   \<and> trace (snd (loop_body (demo_env 200 (Inr (''def456'', 99)) (Inr ''summary''))
        (store [(''gcc-linux-rv32gc-ilp32d-abc123-non-multilib'', 41),
                (''gcc-linux-rv32gc-ilp32d-abc123-non-multilib-report.log'', 42)])
        ''abc123'' ''token'' [''def456''] ''gcc-linux-rv32gc-ilp32d-{}-non-multilib'' state0))
      = [Resolved ''def456'' 99]"
proof -
  from run_baseline_unreachable obtain out fs s' where
    run: "loop_body (demo_env 200 (Inr (''def456'', 99)) (Inr ''summary''))
        (store [(''gcc-linux-rv32gc-ilp32d-abc123-non-multilib'', 41),
                (''gcc-linux-rv32gc-ilp32d-abc123-non-multilib-report.log'', 42)])
        ''abc123'' ''token'' [''def456''] ''gcc-linux-rv32gc-ilp32d-{}-non-multilib'' state0
      = (Inl (ConnectionError ''connection refused''), s')"
    and s': "s' = \<lparr>stdout = out, files = fs,
         failed_build = [],
         failed_testsuite = [],
         no_baseline = [],
         summaries = [],
         trace = [Resolved ''def456'' 99]\<rparr>"
    by blast
  show ?thesis
    unfolding run fst_conv snd_conv by (simp add: s' store_def demo_env_def)
qed

subsection \<open>The comparison without a baseline\<close>

text \<open>
  C3. Let the events of one pass of the loop body for a template start with the resolver
  returning \<^verbatim>\<open>No valid hash\<close>. Then the report artifact of the current hash exists, one
  line is appended to \<^verbatim>\<open>no_baseline.txt\<close>, the name of the current report log, and the
  only other event of the pass is one call of the comparator whose base hash is the
  current hash with \<^verbatim>\<open>-no-baseline\<close> appended and whose base log and current log are the
  same path, that of the current log.
\<close>

theorem no_baseline_compares_current_with_itself:
  assumes fmt: "format t [h] = Inr cur"
    and run: "loop_body env repo h tok prev t s = (res, s')"
    and resolved: "trace s' = trace s @ Resolved ''No valid hash'' bid # evs"
  shows "(\<exists>r rs. repo (cur @ ''-report.log'') = Inr (r # rs))
     \<and> no_baseline s' = no_baseline s @ [cur @ ''-report.log\<newline>'']
     \<and> evs = [Compared (h @ ''-no-baseline'') (''./logs/'' @ cur @ ''-report.log'')
                 (h @ ''-no-baseline'') (''./logs/'' @ cur @ ''-report.log'')
                 (''./summaries/'' @ cur @ ''-report-summary.md'')]"
proof -
  from loop_body_cases [OF run fmt]
  consider (stop) r where "check_artifact_exists cur repo s = (r, s')"
    | (go) i s1 where "check_artifact_exists cur repo s = (Inr (int i), s1)"
        and "download_and_compare env h tok prev t cur (int i) s1 = (res, s')"
    by blast
  then show ?thesis
  proof cases
    case stop
    from check_artifact_exists_frame [OF this] resolved show ?thesis by simp
  next
    case go
    note c = go(1) and d = go(2)
    note fr = check_artifact_exists_frame [OF c]
    note fd = check_artifact_exists_found [OF c]
    from download_and_compare_cases [OF d] fr fd resolved show ?thesis
      by (elim disjE exE conjE) simp_all
  qed
qed

theorem no_baseline_compares_current_with_itself_witness:
  "format ''gcc-linux-rv32gc-ilp32d-{}-non-multilib'' [''abc123'']
     = Inr ''gcc-linux-rv32gc-ilp32d-abc123-non-multilib''
   \<and> trace (snd (loop_body (demo_env 200 (Inr (''No valid hash'', - 1)) (Inr ''summary''))
        (store [(''gcc-linux-rv32gc-ilp32d-abc123-non-multilib'', 41),
                (''gcc-linux-rv32gc-ilp32d-abc123-non-multilib-report.log'', 42)])
        ''abc123'' ''token'' [''def456''] ''gcc-linux-rv32gc-ilp32d-{}-non-multilib'' state0))
     = trace state0 @ Resolved ''No valid hash'' (- 1) #
        [Compared ''abc123-no-baseline''
           ''./logs/gcc-linux-rv32gc-ilp32d-abc123-non-multilib-report.log''
           ''abc123-no-baseline''
           ''./logs/gcc-linux-rv32gc-ilp32d-abc123-non-multilib-report.log''
           ''./summaries/gcc-linux-rv32gc-ilp32d-abc123-non-multilib-report-summary.md'']
   \<and> no_baseline (snd (loop_body (demo_env 200 (Inr (''No valid hash'', - 1)) (Inr ''summary''))
        (store [(''gcc-linux-rv32gc-ilp32d-abc123-non-multilib'', 41),
                (''gcc-linux-rv32gc-ilp32d-abc123-non-multilib-report.log'', 42)])
        ''abc123'' ''token'' [''def456''] ''gcc-linux-rv32gc-ilp32d-{}-non-multilib'' state0))
     = no_baseline state0 @ [''gcc-linux-rv32gc-ilp32d-abc123-non-multilib-report.log\<newline>'']"
proof -
  from run_no_baseline obtain out fs s' where
    run: "loop_body (demo_env 200 (Inr (''No valid hash'', - 1)) (Inr ''summary''))
        (store [(''gcc-linux-rv32gc-ilp32d-abc123-non-multilib'', 41),
                (''gcc-linux-rv32gc-ilp32d-abc123-non-multilib-report.log'', 42)])
        ''abc123'' ''token'' [''def456''] ''gcc-linux-rv32gc-ilp32d-{}-non-multilib'' state0
      = (Inr (), s')"
    and s': "s' = \<lparr>stdout = out, files = fs,
         failed_build = [],
         failed_testsuite = [],
         no_baseline = [''gcc-linux-rv32gc-ilp32d-abc123-non-multilib-report.log\<newline>''],
         summaries = [(''./summaries/gcc-linux-rv32gc-ilp32d-abc123-non-multilib-report-summary.md'', ''summary'')],
         trace = [Resolved ''No valid hash'' (- 1),
            Compared ''abc123-no-baseline''
           ''./logs/gcc-linux-rv32gc-ilp32d-abc123-non-multilib-report.log''
           ''abc123-no-baseline''
           ''./logs/gcc-linux-rv32gc-ilp32d-abc123-non-multilib-report.log''
           ''./summaries/gcc-linux-rv32gc-ilp32d-abc123-non-multilib-report-summary.md'']\<rparr>"
    by blast
  have fmt: "format ''gcc-linux-rv32gc-ilp32d-{}-non-multilib'' [''abc123'']
     = Inr ''gcc-linux-rv32gc-ilp32d-abc123-non-multilib''"
    by simp
  have tr: "trace s' = trace state0 @ Resolved ''No valid hash'' (- 1) #
        [Compared ''abc123-no-baseline''
           ''./logs/gcc-linux-rv32gc-ilp32d-abc123-non-multilib-report.log''
           ''abc123-no-baseline''
           ''./logs/gcc-linux-rv32gc-ilp32d-abc123-non-multilib-report.log''
           ''./summaries/gcc-linux-rv32gc-ilp32d-abc123-non-multilib-report-summary.md'']"
    by (simp add: s' state0_def)
  from no_baseline_compares_current_with_itself [OF fmt run tr] fmt tr
  show ?thesis unfolding run snd_conv by simp
qed

subsection \<open>Errors of the comparator\<close>

text \<open>
  C9, as the code has it. Let the comparator, called in a pass of the loop body, raise
  the error \<open>e\<close>. When \<open>e\<close> is a RuntimeError or a ValueError, the pass ends without an
  error, one record is appended to \<^verbatim>\<open>failed_testsuite.txt\<close>, the name of the current
  report log, a bar and the error text, no summary is written, and the loop goes on with
  the remaining templates from the state the pass left. When \<open>e\<close> is neither (the
  \<^verbatim>\<open>except\<close> clauses name these two classes only), the pass ends with \<open>e\<close>, nothing
  is appended to \<^verbatim>\<open>failed_testsuite.txt\<close>, no summary is written, and the loop ends
  with \<open>e\<close> in the state the pass left, the remaining templates unprocessed.
\<close>

theorem comparator_error_recorded_and_loop_continues:
  assumes fmt: "format t [h] = Inr cur"
    and run: "loop_body env repo h tok prev t s = (res, s')"
    and events: "trace s' = trace s @ evs"
    and called: "Compared a1 a2 a3 a4 a5 \<in> set evs"
    and raised: "compare_logs env a1 a2 a3 a4 a5 (files s') = Inl e"
  shows "((e = RuntimeError err \<or> e = ValueError err) \<longrightarrow>
            res = Inr ()
            \<and> failed_testsuite s' = failed_testsuite s @ [cur @ ''-report.log|'' @ err @ ''\<newline>'']
            \<and> summaries s' = summaries s
            \<and> for_artifact_names env repo h tok prev (t # rest) s
                = for_artifact_names env repo h tok prev rest s')
     \<and> ((\<forall>msg. e \<noteq> RuntimeError msg \<and> e \<noteq> ValueError msg) \<longrightarrow>
            res = Inl e
            \<and> failed_testsuite s' = failed_testsuite s
            \<and> summaries s' = summaries s
            \<and> for_artifact_names env repo h tok prev (t # rest) s = (Inl e, s'))"
proof -
  have oc: "comparison_outcome env a1 a2 a3 a4 a5 (cur @ ''-report.log'') s s' res"
  proof -
    from loop_body_cases [OF run fmt]
    consider (stop) r where "check_artifact_exists cur repo s = (r, s')"
      | (go) i s1 where "check_artifact_exists cur repo s = (Inr (int i), s1)"
          and "download_and_compare env h tok prev t cur (int i) s1 = (res, s')"
      by blast
    then show ?thesis
    proof cases
      case stop
      from check_artifact_exists_frame [OF this] events called show ?thesis by simp
    next
      case go
      note c = go(1) and d = go(2)
      note fr = check_artifact_exists_frame [OF c]
      note fd = check_artifact_exists_found [OF c]
      from download_and_compare_cases [OF d] fr events called
      obtain "comparison_outcome env a1 a2 a3 a4 a5 (cur @ ''-report.log'') s1 s' res"
        by (elim disjE exE conjE) auto
      then show ?thesis
        by (rule comparison_outcome_cong) (simp_all add: fr fd)
    qed
  qed
  show ?thesis
  proof (intro conjI impI)
    assume "e = RuntimeError err \<or> e = ValueError err"
    with oc raised have main: "res = Inr ()
       \<and> failed_testsuite s' = failed_testsuite s @ [cur @ ''-report.log|'' @ err @ ''\<newline>'']
       \<and> summaries s' = summaries s"
      by (auto simp: comparison_outcome_def)
    then show "res = Inr ()"
      and "failed_testsuite s' = failed_testsuite s @ [cur @ ''-report.log|'' @ err @ ''\<newline>'']"
      and "summaries s' = summaries s"
      by simp_all
    from main run show "for_artifact_names env repo h tok prev (t # rest) s
        = for_artifact_names env repo h tok prev rest s'"
      by simp
  next
    assume other: "\<forall>msg. e \<noteq> RuntimeError msg \<and> e \<noteq> ValueError msg"
    with oc raised have main: "res = Inl e \<and> failed_testsuite s' = failed_testsuite s
       \<and> summaries s' = summaries s"
      by (cases e) (auto simp: comparison_outcome_def)
    then show "res = Inl e" and "failed_testsuite s' = failed_testsuite s"
      and "summaries s' = summaries s"
      by simp_all
    from main run show "for_artifact_names env repo h tok prev (t # rest) s = (Inl e, s')"
      by simp
  qed
qed

text \<open>
  In the example world the comparator's ValueError is recorded and the loop goes on with
  the second template; its KeyError ends the pass and the loop, and records nothing.
\<close>

theorem comparator_error_recorded_and_loop_continues_witness:
  "fst (loop_body (demo_env 200 (Inr (''def456'', 43)) (Inl (ValueError ''bad log'')))
        (store [(''gcc-linux-rv32gc-ilp32d-abc123-non-multilib'', 41),
                (''gcc-linux-rv32gc-ilp32d-abc123-non-multilib-report.log'', 42)])
        ''abc123'' ''token'' [''def456''] ''gcc-linux-rv32gc-ilp32d-{}-non-multilib'' state0)
     = Inr ()
   \<and> failed_testsuite (snd (loop_body (demo_env 200 (Inr (''def456'', 43)) (Inl (ValueError ''bad log'')))
        (store [(''gcc-linux-rv32gc-ilp32d-abc123-non-multilib'', 41),
                (''gcc-linux-rv32gc-ilp32d-abc123-non-multilib-report.log'', 42)])
        ''abc123'' ''token'' [''def456''] ''gcc-linux-rv32gc-ilp32d-{}-non-multilib'' state0))
     = [''gcc-linux-rv32gc-ilp32d-abc123-non-multilib-report.log|bad log\<newline>'']
   \<and> for_artifact_names (demo_env 200 (Inr (''def456'', 43)) (Inl (ValueError ''bad log'')))
        (store [(''gcc-linux-rv32gc-ilp32d-abc123-non-multilib'', 41),
                (''gcc-linux-rv32gc-ilp32d-abc123-non-multilib-report.log'', 42)])
        ''abc123'' ''token'' [''def456'']
        (''gcc-linux-rv32gc-ilp32d-{}-non-multilib'' # [''gcc-linux-rv64gc-lp64d-{}-multilib''])
        state0
     = for_artifact_names (demo_env 200 (Inr (''def456'', 43)) (Inl (ValueError ''bad log'')))
        (store [(''gcc-linux-rv32gc-ilp32d-abc123-non-multilib'', 41),
                (''gcc-linux-rv32gc-ilp32d-abc123-non-multilib-report.log'', 42)])
        ''abc123'' ''token'' [''def456'']
        [''gcc-linux-rv64gc-lp64d-{}-multilib'']
        (snd (loop_body (demo_env 200 (Inr (''def456'', 43)) (Inl (ValueError ''bad log'')))
        (store [(''gcc-linux-rv32gc-ilp32d-abc123-non-multilib'', 41),
                (''gcc-linux-rv32gc-ilp32d-abc123-non-multilib-report.log'', 42)])
        ''abc123'' ''token'' [''def456''] ''gcc-linux-rv32gc-ilp32d-{}-non-multilib'' state0))
   \<and> fst (loop_body (demo_env 200 (Inr (''def456'', 43)) (Inl (KeyError ''PASS'')))
        (store [(''gcc-linux-rv32gc-ilp32d-abc123-non-multilib'', 41),
                (''gcc-linux-rv32gc-ilp32d-abc123-non-multilib-report.log'', 42)])
        ''abc123'' ''token'' [''def456''] ''gcc-linux-rv32gc-ilp32d-{}-non-multilib'' state0)
     = Inl (KeyError ''PASS'')
   \<and> failed_testsuite (snd (loop_body (demo_env 200 (Inr (''def456'', 43)) (Inl (KeyError ''PASS'')))
        (store [(''gcc-linux-rv32gc-ilp32d-abc123-non-multilib'', 41),
                (''gcc-linux-rv32gc-ilp32d-abc123-non-multilib-report.log'', 42)])
        ''abc123'' ''token'' [''def456''] ''gcc-linux-rv32gc-ilp32d-{}-non-multilib'' state0))
     = []
   \<and> for_artifact_names (demo_env 200 (Inr (''def456'', 43)) (Inl (KeyError ''PASS'')))
        (store [(''gcc-linux-rv32gc-ilp32d-abc123-non-multilib'', 41),
                (''gcc-linux-rv32gc-ilp32d-abc123-non-multilib-report.log'', 42)])
        ''abc123'' ''token'' [''def456'']
        (''gcc-linux-rv32gc-ilp32d-{}-non-multilib'' # [''gcc-linux-rv64gc-lp64d-{}-multilib''])
        state0
     = (Inl (KeyError ''PASS''),
        snd (loop_body (demo_env 200 (Inr (''def456'', 43)) (Inl (KeyError ''PASS'')))
        (store [(''gcc-linux-rv32gc-ilp32d-abc123-non-multilib'', 41),
                (''gcc-linux-rv32gc-ilp32d-abc123-non-multilib-report.log'', 42)])
        ''abc123'' ''token'' [''def456''] ''gcc-linux-rv32gc-ilp32d-{}-non-multilib'' state0))"
proof -
  from run_baseline_bad_log obtain out fs s' where
    run: "loop_body (demo_env 200 (Inr (''def456'', 43)) (Inl (ValueError ''bad log'')))
        (store [(''gcc-linux-rv32gc-ilp32d-abc123-non-multilib'', 41),
                (''gcc-linux-rv32gc-ilp32d-abc123-non-multilib-report.log'', 42)])
        ''abc123'' ''token'' [''def456''] ''gcc-linux-rv32gc-ilp32d-{}-non-multilib'' state0
      = (Inr (), s')"
    and s': "s' = \<lparr>stdout = out, files = fs,
         failed_build = [],
         failed_testsuite = [''gcc-linux-rv32gc-ilp32d-abc123-non-multilib-report.log|bad log\<newline>''],
         no_baseline = [],
         summaries = [],
         trace = [Resolved ''def456'' 43,
            Compared ''def456''
           ''./logs/gcc-linux-rv32gc-ilp32d-def456-non-multilib-report.log''
           ''abc123''
           ''./logs/gcc-linux-rv32gc-ilp32d-abc123-non-multilib-report.log''
           ''./summaries/gcc-linux-rv32gc-ilp32d-abc123-non-multilib-report-summary.md'']\<rparr>"
    by blast
  from run_baseline_key_error obtain out2 fs2 s2 where
    run2: "loop_body (demo_env 200 (Inr (''def456'', 43)) (Inl (KeyError ''PASS'')))
        (store [(''gcc-linux-rv32gc-ilp32d-abc123-non-multilib'', 41),
                (''gcc-linux-rv32gc-ilp32d-abc123-non-multilib-report.log'', 42)])
        ''abc123'' ''token'' [''def456''] ''gcc-linux-rv32gc-ilp32d-{}-non-multilib'' state0
      = (Inl (KeyError ''PASS''), s2)"
    and s2: "s2 = \<lparr>stdout = out2, files = fs2,
         failed_build = [],
         failed_testsuite = [],
         no_baseline = [],
         summaries = [],
         trace = [Resolved ''def456'' 43,
            Compared ''def456''
           ''./logs/gcc-linux-rv32gc-ilp32d-def456-non-multilib-report.log''
           ''abc123''
           ''./logs/gcc-linux-rv32gc-ilp32d-abc123-non-multilib-report.log''
           ''./summaries/gcc-linux-rv32gc-ilp32d-abc123-non-multilib-report-summary.md'']\<rparr>"
    by blast
  have fmt: "format ''gcc-linux-rv32gc-ilp32d-{}-non-multilib'' [''abc123'']
     = Inr ''gcc-linux-rv32gc-ilp32d-abc123-non-multilib''"
    by simp
  have tr: "trace s' = trace state0 @ [Resolved ''def456'' 43,
        Compared ''def456''
           ''./logs/gcc-linux-rv32gc-ilp32d-def456-non-multilib-report.log''
           ''abc123''
           ''./logs/gcc-linux-rv32gc-ilp32d-abc123-non-multilib-report.log''
           ''./summaries/gcc-linux-rv32gc-ilp32d-abc123-non-multilib-report-summary.md'']"
    by (simp add: s' state0_def)
  have tr2: "trace s2 = trace state0 @ [Resolved ''def456'' 43,
        Compared ''def456''
           ''./logs/gcc-linux-rv32gc-ilp32d-def456-non-multilib-report.log''
           ''abc123''
           ''./logs/gcc-linux-rv32gc-ilp32d-abc123-non-multilib-report.log''
           ''./summaries/gcc-linux-rv32gc-ilp32d-abc123-non-multilib-report-summary.md'']"
    by (simp add: s2 state0_def)
  have called: "Compared ''def456''
           ''./logs/gcc-linux-rv32gc-ilp32d-def456-non-multilib-report.log''
           ''abc123''
           ''./logs/gcc-linux-rv32gc-ilp32d-abc123-non-multilib-report.log''
           ''./summaries/gcc-linux-rv32gc-ilp32d-abc123-non-multilib-report-summary.md''
      \<in> set [Resolved ''def456'' 43,
        Compared ''def456''
           ''./logs/gcc-linux-rv32gc-ilp32d-def456-non-multilib-report.log''
           ''abc123''
           ''./logs/gcc-linux-rv32gc-ilp32d-abc123-non-multilib-report.log''
           ''./summaries/gcc-linux-rv32gc-ilp32d-abc123-non-multilib-report-summary.md'']"
    by simp
  have raised: "compare_logs (demo_env 200 (Inr (''def456'', 43)) (Inl (ValueError ''bad log'')))
           ''def456''
           ''./logs/gcc-linux-rv32gc-ilp32d-def456-non-multilib-report.log''
           ''abc123''
           ''./logs/gcc-linux-rv32gc-ilp32d-abc123-non-multilib-report.log''
           ''./summaries/gcc-linux-rv32gc-ilp32d-abc123-non-multilib-report-summary.md''
           (files s') = Inl (ValueError ''bad log'')"
    by (simp add: demo_env_def)
  have raised2: "compare_logs (demo_env 200 (Inr (''def456'', 43)) (Inl (KeyError ''PASS'')))
           ''def456''
           ''./logs/gcc-linux-rv32gc-ilp32d-def456-non-multilib-report.log''
           ''abc123''
           ''./logs/gcc-linux-rv32gc-ilp32d-abc123-non-multilib-report.log''
           ''./summaries/gcc-linux-rv32gc-ilp32d-abc123-non-multilib-report-summary.md''
           (files s2) = Inl (KeyError ''PASS'')"
    by (simp add: demo_env_def)
  from comparator_error_recorded_and_loop_continues [OF fmt run tr called raised,
      where err = "''bad log''" and rest = "[''gcc-linux-rv64gc-lp64d-{}-multilib'']"]
  have th: "failed_testsuite s' = failed_testsuite state0 @
        [''gcc-linux-rv32gc-ilp32d-abc123-non-multilib'' @ ''-report.log|'' @ ''bad log'' @ ''\<newline>'']
     \<and> for_artifact_names (demo_env 200 (Inr (''def456'', 43)) (Inl (ValueError ''bad log'')))
        (store [(''gcc-linux-rv32gc-ilp32d-abc123-non-multilib'', 41),
                (''gcc-linux-rv32gc-ilp32d-abc123-non-multilib-report.log'', 42)])
        ''abc123'' ''token'' [''def456'']
        (''gcc-linux-rv32gc-ilp32d-{}-non-multilib'' # [''gcc-linux-rv64gc-lp64d-{}-multilib''])
        state0
     = for_artifact_names (demo_env 200 (Inr (''def456'', 43)) (Inl (ValueError ''bad log'')))
        (store [(''gcc-linux-rv32gc-ilp32d-abc123-non-multilib'', 41),
                (''gcc-linux-rv32gc-ilp32d-abc123-non-multilib-report.log'', 42)])
        ''abc123'' ''token'' [''def456'']
        [''gcc-linux-rv64gc-lp64d-{}-multilib'']
        s'"
    by simp
  from comparator_error_recorded_and_loop_continues [OF fmt run2 tr2 called raised2,
      where rest = "[''gcc-linux-rv64gc-lp64d-{}-multilib'']"]
  have th2: "failed_testsuite s2 = failed_testsuite state0
     \<and> for_artifact_names (demo_env 200 (Inr (''def456'', 43)) (Inl (KeyError ''PASS'')))
        (store [(''gcc-linux-rv32gc-ilp32d-abc123-non-multilib'', 41),
                (''gcc-linux-rv32gc-ilp32d-abc123-non-multilib-report.log'', 42)])
        ''abc123'' ''token'' [''def456'']
        (''gcc-linux-rv32gc-ilp32d-{}-non-multilib'' # [''gcc-linux-rv64gc-lp64d-{}-multilib''])
        state0
     = (Inl (KeyError ''PASS''), s2)"
    by simp
  from th have ft: "failed_testsuite s' = [''gcc-linux-rv32gc-ilp32d-abc123-non-multilib-report.log|bad log\<newline>'']"
    by (simp add: state0_def)
  from th have go: "for_artifact_names (demo_env 200 (Inr (''def456'', 43)) (Inl (ValueError ''bad log'')))
        (store [(''gcc-linux-rv32gc-ilp32d-abc123-non-multilib'', 41),
                (''gcc-linux-rv32gc-ilp32d-abc123-non-multilib-report.log'', 42)])
        ''abc123'' ''token'' [''def456'']
        (''gcc-linux-rv32gc-ilp32d-{}-non-multilib'' # [''gcc-linux-rv64gc-lp64d-{}-multilib''])
        state0
     = for_artifact_names (demo_env 200 (Inr (''def456'', 43)) (Inl (ValueError ''bad log'')))
        (store [(''gcc-linux-rv32gc-ilp32d-abc123-non-multilib'', 41),
                (''gcc-linux-rv32gc-ilp32d-abc123-non-multilib-report.log'', 42)])
        ''abc123'' ''token'' [''def456'']
        [''gcc-linux-rv64gc-lp64d-{}-multilib'']
        s'"
    by blast
  from th2 have ft2: "failed_testsuite s2 = []"
    by (simp add: state0_def)
  from th2 have stop: "for_artifact_names (demo_env 200 (Inr (''def456'', 43)) (Inl (KeyError ''PASS'')))
        (store [(''gcc-linux-rv32gc-ilp32d-abc123-non-multilib'', 41),
                (''gcc-linux-rv32gc-ilp32d-abc123-non-multilib-report.log'', 42)])
        ''abc123'' ''token'' [''def456'']
        (''gcc-linux-rv32gc-ilp32d-{}-non-multilib'' # [''gcc-linux-rv64gc-lp64d-{}-multilib''])
        state0
     = (Inl (KeyError ''PASS''), s2)"
    by blast
  show ?thesis
    unfolding run run2 fst_conv snd_conv by (intro conjI refl ft go ft2 stop)
qed

text \<open>
  C9 as stated fails: a KeyError of the comparator is not caught. It ends the run at the
  first template, nothing is recorded in \<^verbatim>\<open>failed_testsuite.txt\<close>, and the five
  remaining templates, whose artifacts the store does not have, are not looked at (no
  build failure is recorded for them).
\<close>

theorem comparator_other_error_counterexample:
  "compare_logs (demo_env 200 (Inr (''def456'', 43)) (Inl (KeyError ''PASS'')))
           ''def456''
           ''./logs/gcc-linux-rv32gc-ilp32d-def456-non-multilib-report.log''
           ''abc123''
           ''./logs/gcc-linux-rv32gc-ilp32d-abc123-non-multilib-report.log''
           ''./summaries/gcc-linux-rv32gc-ilp32d-abc123-non-multilib-report-summary.md''
           Map.empty = Inl (KeyError ''PASS'')
   \<and> fst (download_and_compare_all_artifacts
        (demo_env 200 (Inr (''def456'', 43)) (Inl (KeyError ''PASS'')))
        ''abc123'' ''token'' state0)
      = Inl (KeyError ''PASS'')
   \<and> trace (snd (download_and_compare_all_artifacts
        (demo_env 200 (Inr (''def456'', 43)) (Inl (KeyError ''PASS'')))
        ''abc123'' ''token'' state0))
      = [Resolved ''def456'' 43,
        Compared ''def456''
           ''./logs/gcc-linux-rv32gc-ilp32d-def456-non-multilib-report.log''
           ''abc123''
           ''./logs/gcc-linux-rv32gc-ilp32d-abc123-non-multilib-report.log''
           ''./summaries/gcc-linux-rv32gc-ilp32d-abc123-non-multilib-report-summary.md'']
   \<and> failed_testsuite (snd (download_and_compare_all_artifacts
        (demo_env 200 (Inr (''def456'', 43)) (Inl (KeyError ''PASS'')))
        ''abc123'' ''token'' state0))
      = []
   \<and> failed_build (snd (download_and_compare_all_artifacts
        (demo_env 200 (Inr (''def456'', 43)) (Inl (KeyError ''PASS'')))
        ''abc123'' ''token'' state0))
      = []"
proof -
  from run_all_key_error obtain out fs s' where
    run: "download_and_compare_all_artifacts
        (demo_env 200 (Inr (''def456'', 43)) (Inl (KeyError ''PASS'')))
        ''abc123'' ''token'' state0
      = (Inl (KeyError ''PASS''), s')"
    and s': "s' = \<lparr>stdout = out, files = fs,
         failed_build = [],
         failed_testsuite = [],
         no_baseline = [],
         summaries = [],
         trace = [Resolved ''def456'' 43,
            Compared ''def456''
           ''./logs/gcc-linux-rv32gc-ilp32d-def456-non-multilib-report.log''
           ''abc123''
           ''./logs/gcc-linux-rv32gc-ilp32d-abc123-non-multilib-report.log''
           ''./summaries/gcc-linux-rv32gc-ilp32d-abc123-non-multilib-report-summary.md'']\<rparr>"
    by blast
  show ?thesis
    unfolding run fst_conv snd_conv by (simp add: s' demo_env_def)
qed

subsection \<open>The records of the failure logs\<close>

text \<open>
  C6, as the code has it. Whatever a run does and however it ends, the three failure logs
  are only appended to, and for some template filled with the current hash as name:
  every record appended to \<^verbatim>\<open>failed_build.txt\<close> is the name, a bar, \<^verbatim>\<open>Check logs\<close> and
  a newline; every record appended to \<^verbatim>\<open>failed_testsuite.txt\<close> is the name, a bar,
  \<^verbatim>\<open>Cannot find testsuite artifact\<close> and a newline, or the name of the report log, a
  bar, the comparator's error text and a newline; every record appended to
  \<^verbatim>\<open>no_baseline.txt\<close> is the name of the report log and a newline, without a bar and
  without a reason.
\<close>

theorem failure_records_form:
  assumes "download_and_compare_all_artifacts env h tok s = (res, s')"
  shows "appended_records (rendered h) s s'"
proof (cases "get_repo env tok ''patrick-rivos/riscv-gnu-toolchain''")
  case (Inl e)
  with assms show ?thesis
    by (simp add: download_and_compare_all_artifacts_def appended_records_refl)
next
  case (Inr repo)
  note repo = this
  show ?thesis
  proof (cases "gcc_hashes env h False")
    case (Inl e)
    with assms repo show ?thesis
      by (simp add: download_and_compare_all_artifacts_def appended_records_refl)
  next
    case (Inr prev)
    with assms repo
    have "for_artifact_names env repo h tok prev artifact_names s = (res, s')"
      by (simp add: download_and_compare_all_artifacts_def names_eq)
    then show ?thesis
      by (rule for_artifact_names_records [OF subset_refl])
  qed
qed

theorem failure_records_form_witness:
  "appended_records (rendered ''abc123'') state0
      (snd (download_and_compare_all_artifacts
        (demo_env 200 (Inr (''No valid hash'', - 1)) (Inl (ValueError ''bad log'')))
        ''abc123'' ''token'' state0))
   \<and> failed_build (snd (download_and_compare_all_artifacts
        (demo_env 200 (Inr (''No valid hash'', - 1)) (Inl (ValueError ''bad log'')))
        ''abc123'' ''token'' state0))
     = [''gcc-linux-rv64gc-lp64d-abc123-multilib|Check logs\<newline>'',
            ''gcc-linux-rv64gc-lp64d-abc123-non-multilib|Check logs\<newline>'',
            ''gcc-newlib-rv32gc-ilp32d-abc123-non-multilib|Check logs\<newline>'',
            ''gcc-newlib-rv64gc-lp64d-abc123-multilib|Check logs\<newline>'',
            ''gcc-newlib-rv64gc-lp64d-abc123-non-multilib|Check logs\<newline>'']
   \<and> failed_testsuite (snd (download_and_compare_all_artifacts
        (demo_env 200 (Inr (''No valid hash'', - 1)) (Inl (ValueError ''bad log'')))
        ''abc123'' ''token'' state0))
     = [''gcc-linux-rv32gc-ilp32d-abc123-non-multilib-report.log|bad log\<newline>'']
   \<and> no_baseline (snd (download_and_compare_all_artifacts
        (demo_env 200 (Inr (''No valid hash'', - 1)) (Inl (ValueError ''bad log'')))
        ''abc123'' ''token'' state0))
     = [''gcc-linux-rv32gc-ilp32d-abc123-non-multilib-report.log\<newline>'']"
proof -
  from run_all_no_baseline_bad_log obtain out fs s' where
    run: "download_and_compare_all_artifacts
        (demo_env 200 (Inr (''No valid hash'', - 1)) (Inl (ValueError ''bad log'')))
        ''abc123'' ''token'' state0
      = (Inr (), s')"
    and s': "s' = \<lparr>stdout = out, files = fs,
         failed_build = [''gcc-linux-rv64gc-lp64d-abc123-multilib|Check logs\<newline>'',
            ''gcc-linux-rv64gc-lp64d-abc123-non-multilib|Check logs\<newline>'',
            ''gcc-newlib-rv32gc-ilp32d-abc123-non-multilib|Check logs\<newline>'',
            ''gcc-newlib-rv64gc-lp64d-abc123-multilib|Check logs\<newline>'',
            ''gcc-newlib-rv64gc-lp64d-abc123-non-multilib|Check logs\<newline>''],
         failed_testsuite = [''gcc-linux-rv32gc-ilp32d-abc123-non-multilib-report.log|bad log\<newline>''],
         no_baseline = [''gcc-linux-rv32gc-ilp32d-abc123-non-multilib-report.log\<newline>''],
         summaries = [],
         trace = [Resolved ''No valid hash'' (- 1),
            Compared ''abc123-no-baseline''
           ''./logs/gcc-linux-rv32gc-ilp32d-abc123-non-multilib-report.log''
           ''abc123-no-baseline''
           ''./logs/gcc-linux-rv32gc-ilp32d-abc123-non-multilib-report.log''
           ''./summaries/gcc-linux-rv32gc-ilp32d-abc123-non-multilib-report-summary.md'']\<rparr>"
    by blast
  from failure_records_form [OF run]
  show ?thesis
    unfolding run snd_conv by (simp add: s')
qed

text \<open>
  C6 as stated fails: the record appended to \<^verbatim>\<open>no_baseline.txt\<close> has no bar, so it
  is not a name, a bar and a reason.
\<close>

theorem no_baseline_record_counterexample:
  "no_baseline (snd (loop_body (demo_env 200 (Inr (''No valid hash'', - 1)) (Inr ''summary''))
        (store [(''gcc-linux-rv32gc-ilp32d-abc123-non-multilib'', 41),
                (''gcc-linux-rv32gc-ilp32d-abc123-non-multilib-report.log'', 42)])
        ''abc123'' ''token'' [''def456''] ''gcc-linux-rv32gc-ilp32d-{}-non-multilib'' state0))
     = no_baseline state0 @ [''gcc-linux-rv32gc-ilp32d-abc123-non-multilib-report.log\<newline>'']
   \<and> CHR ''|'' \<notin> set ''gcc-linux-rv32gc-ilp32d-abc123-non-multilib-report.log\<newline>''"
proof -
  from run_no_baseline obtain out fs s' where
    run: "loop_body (demo_env 200 (Inr (''No valid hash'', - 1)) (Inr ''summary''))
        (store [(''gcc-linux-rv32gc-ilp32d-abc123-non-multilib'', 41),
                (''gcc-linux-rv32gc-ilp32d-abc123-non-multilib-report.log'', 42)])
        ''abc123'' ''token'' [''def456''] ''gcc-linux-rv32gc-ilp32d-{}-non-multilib'' state0
      = (Inr (), s')"
    and s': "s' = \<lparr>stdout = out, files = fs,
         failed_build = [],
         failed_testsuite = [],
         no_baseline = [''gcc-linux-rv32gc-ilp32d-abc123-non-multilib-report.log\<newline>''],
         summaries = [(''./summaries/gcc-linux-rv32gc-ilp32d-abc123-non-multilib-report-summary.md'', ''summary'')],
         trace = [Resolved ''No valid hash'' (- 1),
            Compared ''abc123-no-baseline''
           ''./logs/gcc-linux-rv32gc-ilp32d-abc123-non-multilib-report.log''
           ''abc123-no-baseline''
           ''./logs/gcc-linux-rv32gc-ilp32d-abc123-non-multilib-report.log''
           ''./summaries/gcc-linux-rv32gc-ilp32d-abc123-non-multilib-report-summary.md'']\<rparr>"
    by blast
  show ?thesis
    unfolding run snd_conv by (simp add: s' state0_def)
qed

subsection \<open>The outcomes of one template\<close>

text \<open>
  C1, as the code has it. When a pass of the loop body for a template ends without an
  error, it has only appended to the failure logs and the summaries, and: at most one
  build-failure record, at most one record of \<^verbatim>\<open>no_baseline.txt\<close>, and at most one of a
  summary and a testsuite-failure record; at least one of a summary, a testsuite-failure
  record and a build-failure record (never nothing); a record of \<^verbatim>\<open>no_baseline.txt\<close>
  exactly when the resolver answered \<^verbatim>\<open>No valid hash\<close> in the pass, and then there is also
  the one summary or testsuite-failure record of the comparison; no build-failure record
  when the build artifact exists; and exactly one outcome when there is neither a
  build-failure record nor a record of \<^verbatim>\<open>no_baseline.txt\<close>, or when there is neither a
  summary nor a testsuite-failure record.
\<close>

theorem outcomes_per_name:
  assumes fmt: "format t [h] = Inr a"
    and run: "loop_body env repo h tok prev t s = (Inr u, s')"
  shows "\<exists>fb ft nb sm evs. appended s s' fb ft nb sm \<and> trace s' = trace s @ evs
     \<and> length fb \<le> 1 \<and> length nb \<le> 1 \<and> length sm + length ft \<le> 1
     \<and> 1 \<le> length sm + length ft + length fb
     \<and> (nb \<noteq> [] \<longleftrightarrow> (\<exists>bid. Resolved ''No valid hash'' bid \<in> set evs))
     \<and> (nb \<noteq> [] \<longrightarrow> length sm + length ft = 1)
     \<and> ((\<exists>x xs. repo a = Inr (x # xs)) \<longrightarrow> fb = [])
     \<and> (fb = [] \<and> nb = [] \<longrightarrow> length sm + length ft + length fb + length nb = 1)
     \<and> (sm = [] \<and> ft = [] \<longrightarrow> length sm + length ft + length fb + length nb = 1)"
proof -
  from loop_body_cases [OF run fmt]
  consider (stop) "check_artifact_exists a repo s = (Inr (- 1), s')"
    | (go) i s1 where "check_artifact_exists a repo s = (Inr (int i), s1)"
        and "download_and_compare env h tok prev t a (int i) s1 = (Inr u, s')"
    by auto
  then show ?thesis
  proof cases
    case stop
    note fr = check_artifact_exists_frame [OF stop]
    from check_artifact_exists_missing [OF stop]
    consider (neither) "repo a = Inr []" "appended s s' [a @ ''|Check logs\<newline>''] [] [] []"
      | (build_only) "\<exists>x xs. repo a = Inr (x # xs)"
          "appended s s' [] [a @ ''|Cannot find testsuite artifact\<newline>''] [] []"
      using fr by (auto simp: appended_def)
    then show ?thesis
    proof cases
      case neither
      with fr show ?thesis
        by (intro exI [of _ "[a @ ''|Check logs\<newline>'']"] exI [of _ "[]"]) auto
    next
      case build_only
      with fr show ?thesis
        by (intro exI [of _ "[]"] exI [of _ "[a @ ''|Cannot find testsuite artifact\<newline>'']"]) auto
    qed
  next
    case go
    note fr = check_artifact_exists_frame [OF go(1)]
    from download_and_compare_completed [OF go(2)] obtain ft nb sm evs
      where ap: "appended s1 s' [] ft nb sm" and tr: "trace s' = trace s1 @ evs"
        and nb: "length nb \<le> 1" and one: "length sm + length ft = 1"
        and nv: "nb \<noteq> [] \<longleftrightarrow> (\<exists>bid. Resolved ''No valid hash'' bid \<in> set evs)"
      by blast
    from tr fr have tr': "trace s' = trace s @ evs"
      by simp
    from check_artifact_exists_found_build [OF go(1)]
    consider (built) "\<exists>x xs. repo a = Inr (x # xs)" "failed_build s1 = failed_build s"
        "failed_testsuite s1 = failed_testsuite s"
      | (unbuilt) "repo a = Inr []" "failed_build s1 = failed_build s @ [a @ ''|Check logs\<newline>'']"
        "failed_testsuite s1 = failed_testsuite s"
      by blast
    then show ?thesis
    proof cases
      case built
      with ap fr have "appended s s' [] ft nb sm"
        by (simp add: appended_def)
      with nb one nv tr' built(1) show ?thesis
        by (intro exI [of _ "[]"] exI [of _ ft] exI [of _ nb] exI [of _ sm] exI [of _ evs]) auto
    next
      case unbuilt
      with ap fr have "appended s s' [a @ ''|Check logs\<newline>''] ft nb sm"
        by (simp add: appended_def)
      with nb one nv tr' unbuilt(1) show ?thesis
        by (intro exI [of _ "[a @ ''|Check logs\<newline>'']"] exI [of _ ft] exI [of _ nb]
              exI [of _ sm] exI [of _ evs]) auto
    qed
  qed
qed

theorem outcomes_per_name_witness:
  "fst (loop_body (demo_env 200 (Inr (''def456'', 43)) (Inr ''summary''))
        (store [(''gcc-linux-rv32gc-ilp32d-abc123-non-multilib'', 41),
                (''gcc-linux-rv32gc-ilp32d-abc123-non-multilib-report.log'', 42)])
        ''abc123'' ''token'' [''def456''] ''gcc-linux-rv32gc-ilp32d-{}-non-multilib'' state0)
     = Inr ()
   \<and> (\<exists>fb ft nb sm.
         appended state0
           (snd (loop_body (demo_env 200 (Inr (''def456'', 43)) (Inr ''summary''))
        (store [(''gcc-linux-rv32gc-ilp32d-abc123-non-multilib'', 41),
                (''gcc-linux-rv32gc-ilp32d-abc123-non-multilib-report.log'', 42)])
        ''abc123'' ''token'' [''def456''] ''gcc-linux-rv32gc-ilp32d-{}-non-multilib'' state0))
           fb ft nb sm
         \<and> length sm + length ft + length fb + length nb = 1)"
proof -
  from run_baseline obtain out fs s' where
    run: "loop_body (demo_env 200 (Inr (''def456'', 43)) (Inr ''summary''))
        (store [(''gcc-linux-rv32gc-ilp32d-abc123-non-multilib'', 41),
                (''gcc-linux-rv32gc-ilp32d-abc123-non-multilib-report.log'', 42)])
        ''abc123'' ''token'' [''def456''] ''gcc-linux-rv32gc-ilp32d-{}-non-multilib'' state0
      = (Inr (), s')"
    and s': "s' = \<lparr>stdout = out, files = fs,
         failed_build = [],
         failed_testsuite = [],
         no_baseline = [],
         summaries = [(''./summaries/gcc-linux-rv32gc-ilp32d-abc123-non-multilib-report-summary.md'', ''summary'')],
         trace = [Resolved ''def456'' 43,
            Compared ''def456''
           ''./logs/gcc-linux-rv32gc-ilp32d-def456-non-multilib-report.log''
           ''abc123''
           ''./logs/gcc-linux-rv32gc-ilp32d-abc123-non-multilib-report.log''
           ''./summaries/gcc-linux-rv32gc-ilp32d-abc123-non-multilib-report-summary.md'']\<rparr>"
    by blast
  have fmt: "format ''gcc-linux-rv32gc-ilp32d-{}-non-multilib'' [''abc123'']
     = Inr ''gcc-linux-rv32gc-ilp32d-abc123-non-multilib''"
    by simp
  from outcomes_per_name [OF fmt run] obtain fb ft nb sm evs where
    ap: "appended state0 s' fb ft nb sm"
    and built: "(\<exists>x xs. (store [(''gcc-linux-rv32gc-ilp32d-abc123-non-multilib'', 41),
                (''gcc-linux-rv32gc-ilp32d-abc123-non-multilib-report.log'', 42)])
        ''gcc-linux-rv32gc-ilp32d-abc123-non-multilib'' = Inr (x # xs)) \<longrightarrow> fb = []"
    and one: "fb = [] \<and> nb = [] \<longrightarrow> length sm + length ft + length fb + length nb = 1"
    by blast
  have "(store [(''gcc-linux-rv32gc-ilp32d-abc123-non-multilib'', 41),
                (''gcc-linux-rv32gc-ilp32d-abc123-non-multilib-report.log'', 42)])
        ''gcc-linux-rv32gc-ilp32d-abc123-non-multilib'' = Inr (Artifact 41 # [])"
    by (simp add: store_def)
  with built have fb: "fb = []"
    by blast
  from ap have nb: "nb = []"
    by (simp add: appended_def s' state0_def)
  from one fb nb have "length sm + length ft + length fb + length nb = 1"
    by blast
  with ap show ?thesis
    unfolding run fst_conv snd_conv by blast
qed

text \<open>
  C1 as stated fails: without a baseline the pass for one name ends without an error,
  writes a summary and appends a record to \<^verbatim>\<open>no_baseline.txt\<close> as well.
\<close>

theorem summary_and_no_baseline_record_counterexample:
  "fst (loop_body (demo_env 200 (Inr (''No valid hash'', - 1)) (Inr ''summary''))
        (store [(''gcc-linux-rv32gc-ilp32d-abc123-non-multilib'', 41),
                (''gcc-linux-rv32gc-ilp32d-abc123-non-multilib-report.log'', 42)])
        ''abc123'' ''token'' [''def456''] ''gcc-linux-rv32gc-ilp32d-{}-non-multilib'' state0)
     = Inr ()
   \<and> summaries (snd (loop_body (demo_env 200 (Inr (''No valid hash'', - 1)) (Inr ''summary''))
        (store [(''gcc-linux-rv32gc-ilp32d-abc123-non-multilib'', 41),
                (''gcc-linux-rv32gc-ilp32d-abc123-non-multilib-report.log'', 42)])
        ''abc123'' ''token'' [''def456''] ''gcc-linux-rv32gc-ilp32d-{}-non-multilib'' state0))
     = summaries state0 @ [(''./summaries/gcc-linux-rv32gc-ilp32d-abc123-non-multilib-report-summary.md'', ''summary'')]
   \<and> no_baseline (snd (loop_body (demo_env 200 (Inr (''No valid hash'', - 1)) (Inr ''summary''))
        (store [(''gcc-linux-rv32gc-ilp32d-abc123-non-multilib'', 41),
                (''gcc-linux-rv32gc-ilp32d-abc123-non-multilib-report.log'', 42)])
        ''abc123'' ''token'' [''def456''] ''gcc-linux-rv32gc-ilp32d-{}-non-multilib'' state0))
     = no_baseline state0 @ [''gcc-linux-rv32gc-ilp32d-abc123-non-multilib-report.log\<newline>'']"
proof -
  from run_no_baseline obtain out fs s' where
    run: "loop_body (demo_env 200 (Inr (''No valid hash'', - 1)) (Inr ''summary''))
        (store [(''gcc-linux-rv32gc-ilp32d-abc123-non-multilib'', 41),
                (''gcc-linux-rv32gc-ilp32d-abc123-non-multilib-report.log'', 42)])
        ''abc123'' ''token'' [''def456''] ''gcc-linux-rv32gc-ilp32d-{}-non-multilib'' state0
      = (Inr (), s')"
    and s': "s' = \<lparr>stdout = out, files = fs,
         failed_build = [],
         failed_testsuite = [],
         no_baseline = [''gcc-linux-rv32gc-ilp32d-abc123-non-multilib-report.log\<newline>''],
         summaries = [(''./summaries/gcc-linux-rv32gc-ilp32d-abc123-non-multilib-report-summary.md'', ''summary'')],
         trace = [Resolved ''No valid hash'' (- 1),
            Compared ''abc123-no-baseline''
           ''./logs/gcc-linux-rv32gc-ilp32d-abc123-non-multilib-report.log''
           ''abc123-no-baseline''
           ''./logs/gcc-linux-rv32gc-ilp32d-abc123-non-multilib-report.log''
           ''./summaries/gcc-linux-rv32gc-ilp32d-abc123-non-multilib-report-summary.md'']\<rparr>"
    by blast
  show ?thesis
    unfolding run fst_conv snd_conv by (simp add: s' state0_def)
qed

end
